theory Spec2Isabelle
  imports Complex_Main "HOL-Library.AList"
begin

section \<open>Data model\<close>

text \<open>
  The service is a set of Express handlers over four Mongoose collections. A collection
  is a list of documents in natural order: \<open>findOne\<close> returns the first document the
  filter selects, and a found document is identified by its position in the list (MongoDB
  keeps \<open>_id\<close> unique, so position and \<open>_id\<close> name the same document). An
  \<open>objectId\<close> is an id that Mongoose has cast to an ObjectId; \<open>req.user._id\<close> is one.
  An id that arrives in the URL or the body is a string which the query casts first:
  \<open>getCourseDetails\<close>, \<open>updateCourseDetails\<close> and the two checkout handlers carry that
  cast, the other handlers are given the id after it. Dates are timestamps. The schema
  files are not part of the sources; the fields are the ones the handlers read and write.
\<close>

type_synonym objectId = nat
type_synonym date = nat

text \<open>JavaScript values, as they are handed to \<open>res.json\<close>.\<close>

datatype jsval =
    JUndefined
  | JNull
  | JBool bool
  | JNum rat
  | JStr string
  | JId objectId
  | JDate date
  | JArr "jsval list"
  | JObj "(string \<times> jsval) list"
  | JRes

record user =
  user_id :: objectId
  name :: string
  email :: string
  password :: "string option"
  enrolledCourses :: "objectId list"
  photoUrl :: "string option"
  passwordResetToken :: "string option"
  passwordResetExpires :: "date option"

record course =
  course_id :: objectId
  title :: string
  description :: string
  price :: rat
  thumbnail :: "string option"
  instructor :: objectId
  lectures :: "objectId list"
  isPublished :: bool

record lecture =
  lecture_id :: objectId
  lecture_title :: string
  lecture_description :: string
  videoUrl :: string
  duration :: "rat option"
  isPreview :: "bool option"
  lecture_course :: objectId

record purchase =
  userId :: objectId
  courseId :: objectId
  amount :: rat
  status :: string
  paymentId :: string
  purchaseDate :: "date option"
  razorpayPaymentId :: "string option"
  razorpaySignature :: "string option"
  failureReason :: "string option"

record db =
  User :: "user list"
  Course :: "course list"
  Lecture :: "lecture list"
  CoursePurchase :: "purchase list"

text \<open>\<open>process.env\<close>: the secrets the handlers read.\<close>

record env =
  RAZORPAY_KEY_SECRET :: string
  STRIPE_WEBHOOK_SECRET :: string
  JWT_SECRET :: string

section \<open>Handler outcomes\<close>

text \<open>
  A handler ends in one of four ways: \<open>res.status(c).json(b)\<close> (with the cookies set
  before it), \<open>res.status(c).send(text)\<close>, \<open>next(new AppError(message, statusCode))\<close>,
  or an exception that escapes the handler body: a JavaScript \<open>TypeError\<close> or
  \<open>ReferenceError\<close>, bcrypt's rejection of illegal arguments, Mongoose's \<open>CastError\<close>
  and \<open>ValidationError\<close>, or the rejection of a payment provider's call.
\<close>

datatype app_error = AppError string nat

datatype js_error =
    TypeError | ReferenceError | IllegalArguments | CastError | ValidationError | ProviderError

datatype outcome =
    Json nat "(string \<times> jsval) list" jsval
  | Send nat string
  | Next app_error
  | Throw js_error

section \<open>Collection primitives\<close>

fun findIndex :: "('a \<Rightarrow> bool) \<Rightarrow> 'a list \<Rightarrow> nat option" where
  "findIndex P [] = None"
| "findIndex P (x # xs) = (if P x then Some 0 else map_option Suc (findIndex P xs))"

text \<open>\<open>Model.findOne(filter)\<close>: the first document the filter selects, or null.\<close>

definition findOne :: "('a \<Rightarrow> bool) \<Rightarrow> 'a list \<Rightarrow> 'a option" where
  "findOne P xs = map_option (\<lambda>i. xs ! i) (findIndex P xs)"

text \<open>
  \<open>Model.findOneAndUpdate(filter, update, {new: true})\<close>: the first selected document is
  replaced by its update and the updated document returned; with no selected document
  the collection is unchanged and the result is null. The calls without \<open>{new: true}\<close>
  do not use the result.
\<close>

definition findOneAndUpdate ::
  "('a \<Rightarrow> bool) \<Rightarrow> ('a \<Rightarrow> 'a) \<Rightarrow> 'a list \<Rightarrow> 'a list \<times> 'a option" where
  "findOneAndUpdate P upd xs =
     (case findIndex P xs of
        None \<Rightarrow> (xs, None)
      | Some i \<Rightarrow> (xs[i := upd (xs ! i)], Some (upd (xs ! i))))"

section \<open>Razorpay: verifyPayment\<close>

text \<open>
  The fields of \<open>req.body\<close> that the Razorpay handlers read, as the strings the client
  sends; \<open>error_description\<close> is \<open>error?.description\<close>.
\<close>

record razorpay_body =
  razorpay_order_id :: string
  razorpay_payment_id :: string
  razorpay_signature :: string
  error_description :: "string option"

text \<open>The filter \<open>{paymentId: razorpay_order_id, userId, status: "pending"}\<close>.\<close>

definition pendingOrder :: "string \<Rightarrow> objectId \<Rightarrow> purchase \<Rightarrow> bool" where
  "pendingOrder oid uid p \<longleftrightarrow> paymentId p = oid \<and> userId p = uid \<and> status p = ''pending''"

text \<open>
  \<open>user.enrolledCourses.includes(c)\<close> guarded push, followed by \<open>user.save()\<close>, for the
  user found by \<open>User.findById\<close>; nothing happens when no user is found.
\<close>

definition enroll :: "objectId \<Rightarrow> objectId \<Rightarrow> user list \<Rightarrow> user list" where
  "enroll uid cid us =
     (case findIndex (\<lambda>u. user_id u = uid) us of
        None \<Rightarrow> us
      | Some j \<Rightarrow>
          if cid \<in> set (enrolledCourses (us ! j)) then us
          else us[j := (us ! j)\<lparr>enrolledCourses := enrolledCourses (us ! j) @ [cid]\<rparr>])"

text \<open>
  \<open>verifyPayment\<close> (user.controller.js, 485-543). \<open>hmac key msg\<close> stands for
  \<open>crypto.createHmac("sha256", key).update(msg).digest("hex")\<close>, \<open>uid\<close> for
  \<open>req.user._id\<close>, \<open>now\<close> for \<open>new Date()\<close>. \<open>populate("courseId")\<close> yields null for
  a course that no longer exists, and \<open>purchase.courseId._id\<close> then throws.
\<close>

definition expectedSignature :: "(string \<Rightarrow> string \<Rightarrow> string) \<Rightarrow> env \<Rightarrow> razorpay_body \<Rightarrow> string" where
  "expectedSignature hmac e b =
     (let body = razorpay_order_id b @ ''|'' @ razorpay_payment_id b
      in hmac (RAZORPAY_KEY_SECRET e) body)"

definition verifyPayment ::
  "(string \<Rightarrow> string \<Rightarrow> string) \<Rightarrow> env \<Rightarrow> date \<Rightarrow> objectId \<Rightarrow> razorpay_body \<Rightarrow> db \<Rightarrow> db \<times> outcome" where
  "verifyPayment hmac e now uid b d =
     (let isAuthentic = (expectedSignature hmac e b = razorpay_signature b)
      in if \<not> isAuthentic then
           (d\<lparr>CoursePurchase :=
                fst (findOneAndUpdate (pendingOrder (razorpay_order_id b) uid)
                       (\<lambda>p. p\<lparr>status := ''failed''\<rparr>) (CoursePurchase d))\<rparr>,
            Next (AppError ''Payment verification failed'' 400))
         else
           (case findOneAndUpdate (pendingOrder (razorpay_order_id b) uid)
                   (\<lambda>p. p\<lparr>status := ''completed'', purchaseDate := Some now,
                           razorpayPaymentId := Some (razorpay_payment_id b),
                           razorpaySignature := Some (razorpay_signature b)\<rparr>)
                   (CoursePurchase d) of
              (ps, None) \<Rightarrow> (d, Next (AppError ''Purchase record not found'' 404))
            | (ps, Some purchase) \<Rightarrow>
                (case findOne (\<lambda>c. course_id c = courseId purchase) (Course d) of
                   None \<Rightarrow> (d\<lparr>CoursePurchase := ps\<rparr>, Throw TypeError)
                 | Some c \<Rightarrow>
                     (d\<lparr>CoursePurchase := ps, User := enroll uid (course_id c) (User d)\<rparr>,
                      Json 200 []
                        (JObj [(''status'', JStr ''success''),
                               (''message'', JStr ''Payment verified successfully''),
                               (''data'', JObj [(''purchase'',
                                  JObj [(''courseId'', JId (course_id c)),
                                        (''courseName'', JStr (title c)),
                                        (''purchaseDate'',
                                           (case purchaseDate purchase of
                                              None \<Rightarrow> JUndefined | Some t \<Rightarrow> JDate t)),
                                        (''amount'', JNum (amount purchase)),
                                        (''paymentId'', JStr (razorpay_payment_id b))])])])))))"

section \<open>Razorpay: handlePaymentFailure\<close>

text \<open>
  \<open>handlePaymentFailure\<close> (user.controller.js, 549-575). \<open>error_description\<close> is
  \<open>error?.description\<close>: absent when the body has no error object or the object has no
  description. \<open>x || "Payment failed"\<close> takes the default for an absent or empty string.
\<close>

definition orDefault :: "string option \<Rightarrow> string \<Rightarrow> string" where
  "orDefault x dflt = (case x of None \<Rightarrow> dflt | Some s \<Rightarrow> if s = [] then dflt else s)"

definition handlePaymentFailure :: "objectId \<Rightarrow> razorpay_body \<Rightarrow> db \<Rightarrow> db \<times> outcome" where
  "handlePaymentFailure uid b d =
     (case findOneAndUpdate (pendingOrder (razorpay_order_id b) uid)
             (\<lambda>p. p\<lparr>status := ''failed'',
                     failureReason := Some (orDefault (error_description b) ''Payment failed'')\<rparr>)
             (CoursePurchase d) of
        (ps, None) \<Rightarrow> (d, Next (AppError ''Purchase record not found'' 404))
      | (ps, Some purchase) \<Rightarrow>
          (d\<lparr>CoursePurchase := ps\<rparr>,
           Json 200 []
             (JObj [(''status'', JStr ''success''),
                    (''message'', JStr ''Payment failure recorded''),
                    (''data'', JObj [(''orderId'', JStr (razorpay_order_id b)),
                                     (''failureReason'',
                                        (case failureReason purchase of
                                           None \<Rightarrow> JUndefined | Some r \<Rightarrow> JStr r))])])))"

section \<open>Stripe: handleStripeWebhook\<close>

text \<open>
  The request carries the raw body and the \<open>stripe-signature\<close> header.
  \<open>stripe.webhooks.constructEvent\<close> belongs to the Stripe SDK: it either throws (\<open>Inl\<close>
  holds \<open>err.message\<close>) or returns the event, of which the handler reads \<open>type\<close> and
  \<open>data.object.id\<close>.
\<close>

record webhook_req =
  raw_body :: string
  stripe_signature :: string

record stripe_event =
  event_type :: string
  object_id :: string

text \<open>The database calls a handler makes, in order.\<close>

datatype collection = Users | CoursePurchases

datatype db_op = Lookup collection | Write collection

text \<open>The filter \<open>{paymentId: session.id, status: "pending"}\<close>.\<close>

definition pendingSession :: "string \<Rightarrow> purchase \<Rightarrow> bool" where
  "pendingSession sid p \<longleftrightarrow> paymentId p = sid \<and> status p = ''pending''"

text \<open>
  \<open>handleStripeWebhook\<close> (part_000, 84-137). The result is the database after the call,
  the database calls made, and the reply. In the completed case \<open>findOne\<close> is one lookup
  and \<open>purchase.save()\<close> one write, followed by \<open>User.findById\<close> and, for a user not yet
  enrolled, \<open>user.save()\<close>. \<open>findOneAndUpdate\<close> is one lookup and, when a document is
  selected, one write.
\<close>

definition handleStripeWebhook ::
  "(string \<Rightarrow> string \<Rightarrow> string \<Rightarrow> string + stripe_event) \<Rightarrow> env \<Rightarrow> date \<Rightarrow> webhook_req \<Rightarrow> db
     \<Rightarrow> db \<times> db_op list \<times> outcome" where
  "handleStripeWebhook constructEvent e now req d =
     (case constructEvent (raw_body req) (stripe_signature req) (STRIPE_WEBHOOK_SECRET e) of
        Inl msg \<Rightarrow> (d, [], Send 400 (''Webhook Error: '' @ msg))
      | Inr event \<Rightarrow>
          (let (d', ops) =
             (if event_type event = ''checkout.session.completed'' then
                (case findIndex (pendingSession (object_id event)) (CoursePurchase d) of
                   None \<Rightarrow> (d, [Lookup CoursePurchases])
                 | Some i \<Rightarrow>
                     (let purchase = (CoursePurchase d ! i)
                            \<lparr>status := ''completed'', purchaseDate := Some now\<rparr>;
                          d1 = d\<lparr>CoursePurchase := (CoursePurchase d)[i := purchase]\<rparr>
                      in (case findIndex (\<lambda>u. user_id u = userId purchase) (User d1) of
                            None \<Rightarrow>
                              (d1, [Lookup CoursePurchases, Write CoursePurchases, Lookup Users])
                          | Some j \<Rightarrow>
                              if courseId purchase \<in> set (enrolledCourses (User d1 ! j))
                              then (d1, [Lookup CoursePurchases, Write CoursePurchases,
                                         Lookup Users])
                              else (d1\<lparr>User := (User d1)[j := (User d1 ! j)
                                          \<lparr>enrolledCourses :=
                                             enrolledCourses (User d1 ! j) @ [courseId purchase]\<rparr>]\<rparr>,
                                    [Lookup CoursePurchases, Write CoursePurchases,
                                     Lookup Users, Write Users]))))
              else if event_type event = ''checkout.session.expired'' then
                (case findOneAndUpdate (pendingSession (object_id event))
                        (\<lambda>p. p\<lparr>status := ''failed''\<rparr>) (CoursePurchase d) of
                   (ps, r) \<Rightarrow>
                     (d\<lparr>CoursePurchase := ps\<rparr>,
                      Lookup CoursePurchases # (if r = None then [] else [Write CoursePurchases])))
              else (d, []))
           in (d', ops, Json 200 [] (JObj [(''received'', JBool True)]))))"

section \<open>Sequences of payment operations\<close>

datatype operation =
    StripeWebhook date webhook_req
  | VerifyPayment date objectId razorpay_body
  | PaymentFailure objectId razorpay_body

fun apply_operation ::
  "(string \<Rightarrow> string \<Rightarrow> string \<Rightarrow> string + stripe_event) \<Rightarrow> (string \<Rightarrow> string \<Rightarrow> string) \<Rightarrow> env
     \<Rightarrow> operation \<Rightarrow> db \<Rightarrow> db" where
  "apply_operation constructEvent hmac e (StripeWebhook now req) d =
     fst (handleStripeWebhook constructEvent e now req d)"
| "apply_operation constructEvent hmac e (VerifyPayment now uid b) d =
     fst (verifyPayment hmac e now uid b d)"
| "apply_operation constructEvent hmac e (PaymentFailure uid b) d =
     fst (handlePaymentFailure uid b d)"

fun run_operations ::
  "(string \<Rightarrow> string \<Rightarrow> string \<Rightarrow> string + stripe_event) \<Rightarrow> (string \<Rightarrow> string \<Rightarrow> string) \<Rightarrow> env
     \<Rightarrow> operation list \<Rightarrow> db \<Rightarrow> db" where
  "run_operations constructEvent hmac e [] d = d"
| "run_operations constructEvent hmac e (op # ops) d =
     run_operations constructEvent hmac e ops (apply_operation constructEvent hmac e op d)"

text \<open>One step of the purchase lifecycle: no change, or pending to completed or failed.\<close>

definition lifecycle_step :: "string \<Rightarrow> string \<Rightarrow> bool" where
  "lifecycle_step old new \<longleftrightarrow>
     new = old \<or> (old = ''pending'' \<and> (new = ''completed'' \<or> new = ''failed''))"

text \<open>Whether a user document with this id exists and lists the course.\<close>

definition enrolledIn :: "db \<Rightarrow> objectId \<Rightarrow> objectId \<Rightarrow> bool" where
  "enrolledIn d uid cid =
     (case findOne (\<lambda>u. user_id u = uid) (User d) of
        None \<Rightarrow> False
      | Some u \<Rightarrow> cid \<in> set (enrolledCourses u))"

text \<open>Counting the database calls of a trace.\<close>

definition lookups :: "db_op list \<Rightarrow> nat" where
  "lookups ops = length (filter (\<lambda>op. case op of Lookup c \<Rightarrow> True | Write c \<Rightarrow> False) ops)"

definition writes :: "db_op list \<Rightarrow> nat" where
  "writes ops = length (filter (\<lambda>op. case op of Lookup c \<Rightarrow> False | Write c \<Rightarrow> True) ops)"


section \<open>Documents as JavaScript objects\<close>

definition optStr :: "string option \<Rightarrow> jsval" where
  "optStr x = (case x of None \<Rightarrow> JUndefined | Some s \<Rightarrow> JStr s)"

definition optNum :: "rat option \<Rightarrow> jsval" where
  "optNum x = (case x of None \<Rightarrow> JUndefined | Some n \<Rightarrow> JNum n)"

definition optDate :: "date option \<Rightarrow> jsval" where
  "optDate x = (case x of None \<Rightarrow> JUndefined | Some t \<Rightarrow> JDate t)"

definition optBool :: "bool option \<Rightarrow> jsval" where
  "optBool x = (case x of None \<Rightarrow> JUndefined | Some b \<Rightarrow> JBool b)"

definition user_toObject :: "user \<Rightarrow> (string \<times> jsval) list" where
  "user_toObject u =
     [(''_id'', JId (user_id u)), (''name'', JStr (name u)), (''email'', JStr (email u)),
      (''password'', optStr (password u)),
      (''enrolledCourses'', JArr (map JId (enrolledCourses u))),
      (''photoUrl'', optStr (photoUrl u)),
      (''passwordResetToken'', optStr (passwordResetToken u)),
      (''passwordResetExpires'', optDate (passwordResetExpires u))]"

definition lecture_toObject :: "lecture \<Rightarrow> (string \<times> jsval) list" where
  "lecture_toObject l =
     [(''_id'', JId (lecture_id l)), (''title'', JStr (lecture_title l)),
      (''description'', JStr (lecture_description l)), (''videoUrl'', JStr (videoUrl l)),
      (''duration'', optNum (duration l)), (''isPreview'', optBool (isPreview l)),
      (''course'', JId (lecture_course l))]"

definition purchase_toObject :: "purchase \<Rightarrow> (string \<times> jsval) list" where
  "purchase_toObject p =
     [(''userId'', JId (userId p)), (''courseId'', JId (courseId p)),
      (''amount'', JNum (amount p)), (''status'', JStr (status p)),
      (''paymentId'', JStr (paymentId p)), (''purchaseDate'', optDate (purchaseDate p)),
      (''razorpayPaymentId'', optStr (razorpayPaymentId p)),
      (''razorpaySignature'', optStr (razorpaySignature p)),
      (''failureReason'', optStr (failureReason p))]"

text \<open>A course document with the given values in its two reference fields.\<close>

definition course_toObject :: "course \<Rightarrow> jsval \<Rightarrow> jsval \<Rightarrow> (string \<times> jsval) list" where
  "course_toObject c instr lects =
     [(''_id'', JId (course_id c)), (''title'', JStr (title c)),
      (''description'', JStr (description c)), (''price'', JNum (price c)),
      (''thumbnail'', optStr (thumbnail c)), (''instructor'', instr), (''lectures'', lects),
      (''isPublished'', JBool (isPublished c))]"

text \<open>
  \<open>populate("instructor", "name email")\<close> and \<open>populate("lectures")\<close>: references are
  replaced by the documents they name; a missing instructor becomes null and missing
  lectures are left out of the array.
\<close>

definition populateInstructor :: "db \<Rightarrow> objectId \<Rightarrow> jsval" where
  "populateInstructor d uid =
     (case findOne (\<lambda>u. user_id u = uid) (User d) of
        None \<Rightarrow> JNull
      | Some u \<Rightarrow> JObj [(''_id'', JId (user_id u)), (''name'', JStr (name u)),
                        (''email'', JStr (email u))])"

definition populateLectures :: "db \<Rightarrow> objectId list \<Rightarrow> lecture list" where
  "populateLectures d ids = List.map_filter (\<lambda>i. findOne (\<lambda>l. lecture_id l = i) (Lecture d)) ids"

definition populatedCourse :: "db \<Rightarrow> course \<Rightarrow> (string \<times> jsval) list" where
  "populatedCourse d c =
     course_toObject c (populateInstructor d (instructor c))
       (JArr (map (\<lambda>l. JObj (lecture_toObject l)) (populateLectures d (lectures c))))"

text \<open>
  Reading a property of a value that was sent as JSON: \<open>JSON.stringify\<close> leaves out the
  keys whose value is undefined, so such a key is not a field of the response.
\<close>

definition getField :: "string \<Rightarrow> jsval \<Rightarrow> jsval" where
  "getField k b =
     (case b of
        JObj fs \<Rightarrow> (case map_of fs k of None \<Rightarrow> JUndefined | Some v \<Rightarrow> v)
      | _ \<Rightarrow> JUndefined)"

definition hasField :: "string \<Rightarrow> jsval \<Rightarrow> bool" where
  "hasField k b \<longleftrightarrow> getField k b \<noteq> JUndefined"

definition responseBody :: "outcome \<Rightarrow> jsval" where
  "responseBody out = (case out of Json c cookies b \<Rightarrow> b | _ \<Rightarrow> JUndefined)"

section \<open>The error wrapper\<close>

text \<open>
  Modelled from the spec: \<open>catchAsync\<close>, \<open>AppError\<close> and the error-handling middleware
  (middleware/error.middleware.js) are not among the sources. The spec says that a typed
  application error carrying an HTTP status and a message is caught by the shared wrapper
  and serialized as \<open>{status: "error", message}\<close>. Replies the handler sent itself pass
  through; the spec does not say what an untyped exception becomes, so it stays as it is.
\<close>

definition errorHandler :: "app_error \<Rightarrow> outcome" where
  "errorHandler err =
     (case err of AppError message statusCode \<Rightarrow>
        Json statusCode [] (JObj [(''status'', JStr ''error''), (''message'', JStr message)]))"

definition catchAsync :: "outcome \<Rightarrow> outcome" where
  "catchAsync out = (case out of Next err \<Rightarrow> errorHandler err | _ \<Rightarrow> out)"

section \<open>Courses: getCourseDetails and updateCourseDetails\<close>

text \<open>
  \<open>getCourseDetails\<close> (course.controller.js, 133-148). \<open>rawId\<close> is the URL
  segment \<open>req.params.courseId\<close>, and \<open>castObjectId\<close> is Mongoose's cast of a string
  to an ObjectId: for a string that is not an ObjectId \<open>Course.findById\<close> rejects with
  a \<open>CastError\<close>, and the handler never reaches its own check.
\<close>

definition getCourseDetails :: "(string \<Rightarrow> objectId option) \<Rightarrow> string \<Rightarrow> db \<Rightarrow> outcome" where
  "getCourseDetails castObjectId rawId d =
     (case castObjectId rawId of
        None \<Rightarrow> Throw CastError
      | Some cid \<Rightarrow>
          (case findOne (\<lambda>c. course_id c = cid) (Course d) of
             None \<Rightarrow> Next (AppError ''Course not found'' 404)
           | Some c \<Rightarrow>
               Json 200 []
                 (JObj [(''status'', JStr ''success''),
                        (''data'', JObj [(''course'', JObj (populatedCourse d c))])])))"

text \<open>
  JavaScript truthiness: undefined (an absent field), null, false, the number 0 and the
  empty string are falsy, every other value is truthy.
\<close>

definition truthy :: "jsval \<Rightarrow> bool" where
  "truthy x =
     (case x of
        JUndefined \<Rightarrow> False
      | JNull \<Rightarrow> False
      | JBool b \<Rightarrow> b
      | JNum n \<Rightarrow> n \<noteq> 0
      | JStr s \<Rightarrow> s \<noteq> []
      | _ \<Rightarrow> True)"

text \<open>
  The body of \<open>PATCH /courses/:courseId\<close> is parsed JSON: each field is any JSON value,
  or undefined when absent.
\<close>

record course_body =
  body_title :: jsval
  body_description :: jsval
  body_price :: jsval
  body_thumbnail :: jsval

text \<open>
  \<open>course.f = x || course.f\<close>: a falsy \<open>x\<close> keeps the stored value; a truthy \<open>x\<close> is
  assigned, and Mongoose casts it to the type of the path. \<open>cast\<close> is that cast (to a
  string for \<open>title\<close> and \<open>description\<close>, to a number for \<open>price\<close>), with
  \<open>None\<close> for a value it rejects, in which case \<open>save\<close> rejects.
\<close>

definition orKeep :: "(jsval \<Rightarrow> 'a option) \<Rightarrow> jsval \<Rightarrow> 'a \<Rightarrow> 'a option" where
  "orKeep cast x current = (if truthy x then cast x else Some current)"

text \<open>
  \<open>updateCourseDetails\<close> (course.controller.js, 104-127); \<open>rawId\<close> is
  \<open>req.params.courseId\<close>. \<open>uploadMedia\<close> (cloudinary.js)
  returns the upload response, of which the handler reads \<open>secure_url\<close>, or undefined
  when the upload failed; reading \<open>secure_url\<close> of undefined throws before anything is
  saved.
\<close>

definition updateCourseDetails ::
  "(string \<Rightarrow> objectId option) \<Rightarrow> (jsval \<Rightarrow> string option) \<Rightarrow> (jsval \<Rightarrow> rat option)
     \<Rightarrow> (jsval \<Rightarrow> string option) \<Rightarrow> string \<Rightarrow> course_body \<Rightarrow> db \<Rightarrow> db \<times> outcome" where
  "updateCourseDetails castObjectId castString castNumber uploadMedia rawId b d =
     (case castObjectId rawId of
        None \<Rightarrow> (d, Throw CastError)
      | Some cid \<Rightarrow>
          (case findIndex (\<lambda>c. course_id c = cid) (Course d) of
             None \<Rightarrow> (d, Next (AppError ''Course not found'' 404))
           | Some i \<Rightarrow>
               (case (if truthy (body_thumbnail b)
                      then (case uploadMedia (body_thumbnail b) of
                              None \<Rightarrow> Inl TypeError
                            | Some secure_url \<Rightarrow>
                                Inr ((Course d ! i)\<lparr>thumbnail := Some secure_url\<rparr>))
                      else Inr (Course d ! i)) of
                  Inl err \<Rightarrow> (d, Throw err)
                | Inr c1 \<Rightarrow>
                    (case (orKeep castString (body_title b) (title c1),
                           orKeep castString (body_description b) (description c1),
                           orKeep castNumber (body_price b) (price c1)) of
                       (Some t, Some ds, Some pr) \<Rightarrow>
                         (let c2 = c1\<lparr>title := t, description := ds, price := pr\<rparr>
                          in (d\<lparr>Course := (Course d)[i := c2]\<rparr>,
                              Json 200 []
                                (JObj [(''status'', JStr ''success''),
                                       (''data'', JObj [(''course'',
                                          JObj (course_toObject c2 (JId (instructor c2))
                                                  (JArr (map JId (lectures c2)))))])])))
                     | _ \<Rightarrow> (d, Throw ValidationError)))))"

section \<open>Stripe: getCoursePurchaseStatus\<close>

text \<open>
  The object built for each lecture of a course the user has not bought (part_000,
  172-180): \<open>videoUrl\<close> is spread in only when \<open>lecture.isPreview\<close> is truthy.
\<close>

definition lecturePreview :: "lecture \<Rightarrow> jsval" where
  "lecturePreview l =
     JObj ([(''_id'', JId (lecture_id l)), (''title'', JStr (lecture_title l)),
            (''description'', JStr (lecture_description l)),
            (''duration'', optNum (duration l)),
            (''isPreview'', JBool (isPreview l = Some True))]
           @ (if isPreview l = Some True then [(''videoUrl'', JStr (videoUrl l))] else []))"

text \<open>
  \<open>getCoursePurchaseStatus\<close> (part_000, 143-190). In the object literal
  \<open>{...course.toObject(), isPurchased, lectures: ...}\<close> a later key replaces the value
  of the same key spread in before it.
\<close>

definition completedPurchase :: "objectId \<Rightarrow> objectId \<Rightarrow> purchase \<Rightarrow> bool" where
  "completedPurchase uid cid p \<longleftrightarrow> userId p = uid \<and> courseId p = cid \<and> status p = ''completed''"

definition getCoursePurchaseStatus :: "objectId \<Rightarrow> objectId \<Rightarrow> db \<Rightarrow> outcome" where
  "getCoursePurchaseStatus uid cid d =
     (case findOne (\<lambda>c. course_id c = cid) (Course d) of
        None \<Rightarrow> Next (AppError ''Course not found'' 404)
      | Some c \<Rightarrow>
          (let purchase = findOne (completedPurchase uid cid) (CoursePurchase d);
               isPurchased = (purchase \<noteq> None);
               courseData =
                 AList.update ''lectures''
                   (if isPurchased
                    then JArr (map (\<lambda>l. JObj (lecture_toObject l))
                                 (populateLectures d (lectures c)))
                    else JArr (map lecturePreview (populateLectures d (lectures c))))
                   (AList.update ''isPurchased'' (JBool isPurchased) (populatedCourse d c))
           in Json 200 []
                (JObj [(''status'', JStr ''success''),
                       (''data'', JObj [(''course'', JObj courseData),
                                        (''purchaseInfo'',
                                           (case purchase of
                                              None \<Rightarrow> JNull
                                            | Some p \<Rightarrow> JObj (purchase_toObject p)))])])))"

text \<open>\<open>res.data.course.lectures\<close> of a reply.\<close>

definition responseLectures :: "outcome \<Rightarrow> jsval" where
  "responseLectures out =
     getField ''lectures'' (getField ''course'' (getField ''data'' (responseBody out)))"

text \<open>
  A database whose non-preview lectures carry other video URLs (given by \<open>f\<close>) and which
  is otherwise the same.
\<close>

definition withOtherVideos :: "(lecture \<Rightarrow> string) \<Rightarrow> db \<Rightarrow> db" where
  "withOtherVideos f d =
     d\<lparr>Lecture := map (\<lambda>l. if isPreview l = Some True then l else l\<lparr>videoUrl := f l\<rparr>)
                     (Lecture d)\<rparr>"

section \<open>Accounts: generateToken, createUserAccount, authenticateUser\<close>

text \<open>
  Reading a property of a JavaScript value inside a handler: it throws on undefined and
  null.
\<close>

definition getProp :: "jsval \<Rightarrow> string \<Rightarrow> js_error + jsval" where
  "getProp x k =
     (case x of
        JUndefined \<Rightarrow> Inl TypeError
      | JNull \<Rightarrow> Inl TypeError
      | JObj fs \<Rightarrow> Inr (case map_of fs k of None \<Rightarrow> JUndefined | Some v \<Rightarrow> v)
      | _ \<Rightarrow> Inr JUndefined)"

text \<open>
  \<open>generateToken = (res, user, message) => ...\<close> (part_002, 36-58). \<open>jwt_sign\<close> is
  \<open>jwt.sign\<close> of the jsonwebtoken package. \<open>JRes\<close> is the Express response object, the
  only value on which \<open>.status(200).cookie(...).json(...)\<close> can be called; the call
  returns the response object. The result is the reply that was sent.
\<close>

definition generateToken ::
  "(jsval \<Rightarrow> string \<Rightarrow> string) \<Rightarrow> env \<Rightarrow> jsval \<Rightarrow> jsval \<Rightarrow> jsval \<Rightarrow> js_error + outcome" where
  "generateToken jwt_sign e res usr message =
     (case getProp usr ''_id'' of
        Inl err \<Rightarrow> Inl err
      | Inr uid \<Rightarrow>
          (let token = jwt_sign (JObj [(''userId'', uid)]) (JWT_SECRET e)
           in (case res of
                 JRes \<Rightarrow>
                   Inr (Json 200 [(''token'', JStr token)]
                          (JObj [(''success'', JBool True), (''message'', message),
                                 (''user'', usr)]))
               | _ \<Rightarrow> Inl TypeError)))"

record signup_body =
  signup_name :: string
  signup_email :: string
  signup_password :: string

text \<open>
  \<open>createUserAccount\<close> (user.controller.js, 13-55). \<open>bcrypt_hash\<close> and \<open>salt\<close> stand
  for \<open>bcrypt.hash\<close> and the result of \<open>bcrypt.genSalt(10)\<close>, \<open>newId\<close> for the
  \<open>_id\<close> that \<open>User.create\<close> assigns. The handler calls \<open>generateToken(newUser._id)\<close>:
  the id arrives as \<open>res\<close>, and \<open>user\<close> and \<open>message\<close> are undefined. Lines 36-54
  run only if that call returns, with \<open>token\<close> the value it returns.
\<close>

definition createUserAccount ::
  "(jsval \<Rightarrow> string \<Rightarrow> string) \<Rightarrow> (string \<Rightarrow> string \<Rightarrow> string) \<Rightarrow> string \<Rightarrow> objectId \<Rightarrow> env
     \<Rightarrow> signup_body \<Rightarrow> db \<Rightarrow> db \<times> outcome" where
  "createUserAccount jwt_sign bcrypt_hash salt newId e b d =
     (case findOne (\<lambda>u. email u = signup_email b) (User d) of
        Some existingUser \<Rightarrow> (d, Next (AppError ''User already exists with this email'' 400))
      | None \<Rightarrow>
          (let hashedPassword = bcrypt_hash (signup_password b) salt;
               newUser = \<lparr>user_id = newId, name = signup_name b, email = signup_email b,
                          password = Some hashedPassword, enrolledCourses = [],
                          photoUrl = None, passwordResetToken = None,
                          passwordResetExpires = None\<rparr>;
               d1 = d\<lparr>User := User d @ [newUser]\<rparr>
           in (case generateToken jwt_sign e (JId (user_id newUser)) JUndefined JUndefined of
                 Inl err \<Rightarrow> (d1, Throw err)
               | Inr sent \<Rightarrow>
                   (let token = JRes;
                        newUser = newUser\<lparr>password := None\<rparr>
                    in (d1,
                        Json 201 [(''token'', token)]
                          (JObj [(''status'', JStr ''success''),
                                 (''message'', JStr ''Account created successfully''),
                                 (''data'', JObj [(''user'', JObj (user_toObject newUser)),
                                                  (''token'', token)])]))))))"

record signin_body =
  signin_email :: "string option"
  signin_password :: "string option"

text \<open>
  \<open>authenticateUser\<close> (user.controller.js, 61-103). \<open>bcrypt_compare\<close> stands for
  \<open>bcrypt.compare\<close>, which rejects a hash that is not a string.
\<close>

definition authenticateUser ::
  "(jsval \<Rightarrow> string \<Rightarrow> string) \<Rightarrow> (string \<Rightarrow> string \<Rightarrow> bool) \<Rightarrow> env \<Rightarrow> signin_body \<Rightarrow> db
     \<Rightarrow> outcome" where
  "authenticateUser jwt_sign bcrypt_compare e b d =
     (case (signin_email b, signin_password b) of
        (Some em, Some pw) \<Rightarrow>
          if em = [] \<or> pw = [] then Next (AppError ''Please provide email and password'' 400)
          else
            (case findOne (\<lambda>u. email u = em) (User d) of
               None \<Rightarrow> Next (AppError ''Invalid email or password'' 401)
             | Some usr \<Rightarrow>
                 (case password usr of
                    None \<Rightarrow> Throw IllegalArguments
                  | Some hashed \<Rightarrow>
                      if \<not> bcrypt_compare pw hashed
                      then Next (AppError ''Invalid email or password'' 401)
                      else
                        (case generateToken jwt_sign e (JId (user_id usr)) JUndefined
                                JUndefined of
                           Inl err \<Rightarrow> Throw err
                         | Inr sent \<Rightarrow>
                             (let token = JRes;
                                  usr = usr\<lparr>password := None\<rparr>
                              in Json 200 [(''token'', token)]
                                   (JObj [(''status'', JStr ''success''),
                                          (''message'', JStr ''Logged in successfully''),
                                          (''data'', JObj [(''user'', JObj (user_toObject usr)),
                                                           (''token'', token)])])))))
      | _ \<Rightarrow> Next (AppError ''Please provide email and password'' 400))"

section \<open>Creating purchases: initiateStripeCheckout and createRazorpayOrder\<close>

text \<open>
  The two handlers that create purchase records. The checkout session and the order are
  what the provider's SDK call returned (\<open>None\<close> when the call rejected); the record is
  stored under the id the provider has just issued.
\<close>

record stripe_session =
  session_id :: string
  session_url :: string

definition newPurchase :: "objectId \<Rightarrow> objectId \<Rightarrow> rat \<Rightarrow> string \<Rightarrow> purchase" where
  "newPurchase uid cid amt pay =
     \<lparr>userId = uid, courseId = cid, amount = amt, status = ''pending'', paymentId = pay,
      purchaseDate = None, razorpayPaymentId = None, razorpaySignature = None,
      failureReason = None\<rparr>"

text \<open>\<open>initiateStripeCheckout\<close> (part_000, 15-78); \<open>rawId\<close> is \<open>req.body.courseId\<close>.\<close>

definition initiateStripeCheckout ::
  "(string \<Rightarrow> objectId option) \<Rightarrow> stripe_session option \<Rightarrow> objectId \<Rightarrow> string \<Rightarrow> db
     \<Rightarrow> db \<times> outcome" where
  "initiateStripeCheckout castObjectId session uid rawId d =
     (case castObjectId rawId of
        None \<Rightarrow> (d, Throw CastError)
      | Some cid \<Rightarrow>
          (case findOne (\<lambda>c. course_id c = cid) (Course d) of
             None \<Rightarrow> (d, Next (AppError ''Course not found'' 404))
           | Some c \<Rightarrow>
               (case findOne (completedPurchase uid cid) (CoursePurchase d) of
                  Some existingPurchase \<Rightarrow> (d, Next (AppError ''Course already purchased'' 400))
                | None \<Rightarrow>
                    (case session of
                       None \<Rightarrow> (d, Throw ProviderError)
                     | Some ss \<Rightarrow>
                         (d\<lparr>CoursePurchase :=
                              CoursePurchase d @ [newPurchase uid cid (price c) (session_id ss)]\<rparr>,
                          Json 200 []
                            (JObj [(''status'', JStr ''success''),
                                   (''data'', JObj [(''sessionId'', JStr (session_id ss)),
                                                    (''sessionUrl'', JStr (session_url ss))])]))))))"

record razorpay_order =
  order_id :: string
  order_amount :: rat
  order_currency :: string

text \<open>
  \<open>createRazorpayOrder\<close> (user.controller.js, 421-479); \<open>rawId\<close> is
  \<open>req.body.courseId\<close> and \<open>keyId\<close> is \<open>process.env.RAZORPAY_KEY_ID\<close>. A rejected \<open>razorpay.orders.create\<close> is caught by the
  handler's own \<open>try\<close> and becomes the 500 error.
\<close>

definition createRazorpayOrder ::
  "(string \<Rightarrow> objectId option) \<Rightarrow> razorpay_order option \<Rightarrow> string \<Rightarrow> objectId \<Rightarrow> string \<Rightarrow> db
     \<Rightarrow> db \<times> outcome" where
  "createRazorpayOrder castObjectId order keyId uid rawId d =
     (case castObjectId rawId of
        None \<Rightarrow> (d, Throw CastError)
      | Some cid \<Rightarrow>
          (case findOne (\<lambda>c. course_id c = cid) (Course d) of
             None \<Rightarrow> (d, Next (AppError ''Course not found'' 404))
           | Some c \<Rightarrow>
               (case findOne (completedPurchase uid cid) (CoursePurchase d) of
                  Some existingPurchase \<Rightarrow> (d, Next (AppError ''Course already purchased'' 400))
                | None \<Rightarrow>
                    (case order of
                       None \<Rightarrow> (d, Next (AppError ''Failed to create Razorpay order'' 500))
                     | Some ord \<Rightarrow>
                         (d\<lparr>CoursePurchase :=
                              CoursePurchase d @ [newPurchase uid cid (price c) (order_id ord)]\<rparr>,
                          Json 200 []
                            (JObj [(''status'', JStr ''success''),
                                   (''data'', JObj [(''orderId'', JStr (order_id ord)),
                                                    (''amount'', JNum (order_amount ord)),
                                                    (''currency'', JStr (order_currency ord)),
                                                    (''courseTitle'', JStr (title c)),
                                                    (''key'', JStr keyId)])]))))))"

section \<open>The replies of the remaining handlers\<close>

text \<open>
  The handlers whose database effects no claim is about are given by the reply they send,
  as a function of the request fields they test and of what their awaited calls returned:
  a document is the JavaScript value handed to \<open>res.json\<close>, and \<open>None\<close> is null (for
  \<open>uploadMedia\<close>, undefined). An awaited call that rejects ends the handler in that
  exception.
\<close>

text \<open>course.controller.js\<close>

definition createNewCourse :: "string option \<Rightarrow> jsval \<Rightarrow> outcome" where
  "createNewCourse thumbnailResult newCourse =
     (case thumbnailResult of
        None \<Rightarrow> Throw TypeError
      | Some secure_url \<Rightarrow>
          Json 201 []
            (JObj [(''status'', JStr ''success''), (''data'', JObj [(''course'', newCourse)])]))"

definition searchCourses :: "jsval list \<Rightarrow> outcome" where
  "searchCourses courses =
     Json 200 []
       (JObj [(''status'', JStr ''success''), (''results'', JNum (of_nat (length courses))),
              (''data'', JObj [(''courses'', JArr courses)])])"

definition getPublishedCourses :: "jsval list \<Rightarrow> outcome" where
  "getPublishedCourses courses =
     Json 200 []
       (JObj [(''status'', JStr ''success''), (''results'', JNum (of_nat (length courses))),
              (''data'', JObj [(''courses'', JArr courses)])])"

definition getMyCreatedCourses :: "jsval list \<Rightarrow> outcome" where
  "getMyCreatedCourses courses =
     Json 200 []
       (JObj [(''status'', JStr ''success''), (''results'', JNum (of_nat (length courses))),
              (''data'', JObj [(''courses'', JArr courses)])])"

definition addLectureToCourse :: "jsval option \<Rightarrow> jsval \<Rightarrow> outcome" where
  "addLectureToCourse crs newLecture =
     (case crs of
        None \<Rightarrow> Next (AppError ''Course not found'' 404)
      | Some c \<Rightarrow>
          Json 201 []
            (JObj [(''status'', JStr ''success''), (''data'', JObj [(''lecture'', newLecture)])]))"

text \<open>The argument is \<open>course.lectures\<close> of the populated course that was found.\<close>

definition getCourseLectures :: "jsval list option \<Rightarrow> outcome" where
  "getCourseLectures crs =
     (case crs of
        None \<Rightarrow> Next (AppError ''Course not found'' 404)
      | Some lects \<Rightarrow>
          Json 200 []
            (JObj [(''status'', JStr ''success''), (''results'', JNum (of_nat (length lects))),
                   (''data'', JObj [(''lectures'', JArr lects)])]))"

text \<open>user.controller.js\<close>

definition signOutUser :: outcome where
  "signOutUser =
     Json 200 []
       (JObj [(''status'', JStr ''success''), (''message'', JStr ''Logged out successfully'')])"

definition getCurrentUserProfile :: "jsval option \<Rightarrow> outcome" where
  "getCurrentUserProfile usr =
     (case usr of
        None \<Rightarrow> Next (AppError ''User not found'' 404)
      | Some u \<Rightarrow>
          Json 200 [] (JObj [(''status'', JStr ''success''), (''data'', JObj [(''user'', u)])]))"

text \<open>
  \<open>updateUserProfile\<close> (156-202): \<open>existingUser\<close> is looked up only for a truthy email,
  \<open>currentUser\<close> and the upload only for a truthy \<open>photoUrl\<close>; \<open>updatedUser\<close> is what
  \<open>findByIdAndUpdate\<close> returned, a document or null.
\<close>

definition updateUserProfile ::
  "jsval \<Rightarrow> jsval \<Rightarrow> jsval option \<Rightarrow> user option \<Rightarrow> string option \<Rightarrow> jsval \<Rightarrow> outcome" where
  "updateUserProfile eml photo existingUser currentUser uploadResult updatedUser =
     (if truthy eml \<and> existingUser \<noteq> None then Next (AppError ''Email already exists'' 400)
      else if truthy photo \<and> currentUser = None then Throw TypeError
      else if truthy photo \<and> uploadResult = None then Throw TypeError
      else
        Json 200 []
          (JObj [(''status'', JStr ''success''),
                 (''message'', JStr ''Profile updated successfully''),
                 (''data'', JObj [(''user'', updatedUser)])]))"

definition changeUserPassword :: "jsval \<Rightarrow> jsval \<Rightarrow> user option \<Rightarrow> bool \<Rightarrow> outcome" where
  "changeUserPassword currentPassword newPassword usr isCurrentPasswordValid =
     (if \<not> truthy currentPassword \<or> \<not> truthy newPassword
      then Next (AppError ''Please provide current password and new password'' 400)
      else
        (case usr of
           None \<Rightarrow> Next (AppError ''User not found'' 404)
         | Some u \<Rightarrow>
             if \<not> isCurrentPasswordValid then Next (AppError ''Current password is incorrect'' 400)
             else
               Json 200 []
                 (JObj [(''status'', JStr ''success''),
                        (''message'', JStr ''Password changed successfully'')])))"

definition forgotPassword :: "user option \<Rightarrow> string \<Rightarrow> string \<Rightarrow> outcome" where
  "forgotPassword usr resetToken resetUrl =
     (case usr of
        None \<Rightarrow> Next (AppError ''User not found with this email'' 404)
      | Some u \<Rightarrow>
          Json 200 []
            (JObj [(''status'', JStr ''success''),
                   (''message'', JStr ''Password reset token sent to email''),
                   (''resetUrl'', JStr resetUrl),
                   (''data'', JObj [(''resetToken'', JStr resetToken)])]))"

text \<open>
  \<open>resetPassword\<close> (302-351) calls \<open>generateToken(user._id)\<close> in the same way as signup
  and signin.
\<close>

definition resetPassword ::
  "(jsval \<Rightarrow> string \<Rightarrow> string) \<Rightarrow> env \<Rightarrow> jsval \<Rightarrow> user option \<Rightarrow> outcome" where
  "resetPassword jwt_sign e pw usr =
     (if \<not> truthy pw then Next (AppError ''Please provide new password'' 400)
      else
        (case usr of
           None \<Rightarrow> Next (AppError ''Token is invalid or has expired'' 400)
         | Some u \<Rightarrow>
             (case generateToken jwt_sign e (JId (user_id u)) JUndefined JUndefined of
                Inl err \<Rightarrow> Throw err
              | Inr sent \<Rightarrow>
                  (let jwtToken = JRes
                   in Json 200 [(''token'', jwtToken)]
                        (JObj [(''status'', JStr ''success''),
                               (''message'', JStr ''Password reset successfully''),
                               (''data'', JObj [(''token'', jwtToken)])])))))"

definition deleteUserAccount :: "jsval \<Rightarrow> user option \<Rightarrow> bool \<Rightarrow> outcome" where
  "deleteUserAccount pw usr isPasswordValid =
     (if \<not> truthy pw
      then Next (AppError ''Please provide your password to confirm account deletion'' 400)
      else
        (case usr of
           None \<Rightarrow> Next (AppError ''User not found'' 404)
         | Some u \<Rightarrow>
             if \<not> isPasswordValid then Next (AppError ''Incorrect password'' 400)
             else
               Json 200 []
                 (JObj [(''status'', JStr ''success''),
                        (''message'', JStr ''Account deleted successfully'')])))"

text \<open>
  \<open>getPaymentStatus\<close> (581-607): the purchase found, with the value that
  \<open>populate("courseId", "title thumbnail")\<close> put in its \<open>courseId\<close>.
\<close>

definition getPaymentStatus :: "(purchase \<times> jsval) option \<Rightarrow> outcome" where
  "getPaymentStatus found =
     (case found of
        None \<Rightarrow> Next (AppError ''Payment record not found'' 404)
      | Some (p, crs) \<Rightarrow>
          Json 200 []
            (JObj [(''status'', JStr ''success''),
                   (''data'', JObj [(''purchase'',
                      JObj [(''orderId'', JStr (paymentId p)), (''status'', JStr (status p)),
                            (''amount'', JNum (amount p)), (''course'', crs),
                            (''purchaseDate'', optDate (purchaseDate p)),
                            (''failureReason'', optStr (failureReason p))])])]))"

text \<open>
  \<open>getPurchasedCourses\<close> (part_000, 196-237): each completed purchase comes with its
  populated course, null for a course that no longer exists, on which \<open>toObject()\<close>
  throws.
\<close>

definition purchasedCourse :: "purchase \<times> (string \<times> jsval) list option \<Rightarrow> jsval" where
  "purchasedCourse pc =
     (case pc of (p, crs) \<Rightarrow>
        JObj (AList.update ''purchaseInfo''
                (JObj [(''purchaseDate'', optDate (purchaseDate p)),
                       (''amount'', JNum (amount p)), (''paymentId'', JStr (paymentId p))])
                (case crs of None \<Rightarrow> [] | Some kvs \<Rightarrow> kvs)))"

definition getPurchasedCourses :: "(purchase \<times> (string \<times> jsval) list option) list \<Rightarrow> outcome" where
  "getPurchasedCourses purchases =
     (if list_ex (\<lambda>pc. snd pc = None) purchases then Throw TypeError
      else
        Json 200 []
          (JObj [(''status'', JStr ''success''),
                 (''results'', JNum (of_nat (length (map purchasedCourse purchases)))),
                 (''data'', JObj [(''courses'', JArr (map purchasedCourse purchases))])]))"

text \<open>
  The progress handlers (part_001) are declared \<open>async (req, res) =>\<close>, so for a null
  \<open>progress\<close> the call \<open>next(new AppError(...))\<close> throws a \<open>ReferenceError\<close>.
\<close>

definition getUserCourseProgress :: "jsval option \<Rightarrow> outcome" where
  "getUserCourseProgress progress =
     (case progress of
        None \<Rightarrow> Throw ReferenceError
      | Some pr \<Rightarrow>
          Json 200 []
            (JObj [(''status'', JStr ''success''), (''data'', JObj [(''progress'', pr)])]))"

definition updateLectureProgress :: "jsval option \<Rightarrow> outcome" where
  "updateLectureProgress progress =
     (case progress of
        None \<Rightarrow> Throw ReferenceError
      | Some pr \<Rightarrow>
          Json 200 []
            (JObj [(''status'', JStr ''success''), (''data'', JObj [(''progress'', pr)])]))"

definition markCourseAsCompleted :: "jsval option \<Rightarrow> outcome" where
  "markCourseAsCompleted progress =
     (case progress of
        None \<Rightarrow> Throw ReferenceError
      | Some pr \<Rightarrow>
          Json 200 []
            (JObj [(''status'', JStr ''success''), (''data'', JObj [(''progress'', pr)])]))"

definition resetCourseProgress :: "jsval option \<Rightarrow> outcome" where
  "resetCourseProgress progress =
     (case progress of
        None \<Rightarrow> Throw ReferenceError
      | Some pr \<Rightarrow>
          Json 200 []
            (JObj [(''status'', JStr ''success''), (''data'', JObj [(''progress'', pr)])]))"

text \<open>\<open>checkHealth\<close> and \<open>getReadyStateText\<close> (part_002, 3-31).\<close>

definition getReadyStateText :: "int \<Rightarrow> string" where
  "getReadyStateText state =
     (if state = 0 then ''Disconnected''
      else if state = 1 then ''Connected''
      else if state = 2 then ''Connecting''
      else if state = 3 then ''Disconnecting''
      else ''Unknown'')"

definition checkHealth :: "int \<Rightarrow> outcome" where
  "checkHealth readyState =
     (let readyStateText = getReadyStateText readyState
      in Json 200 []
           (JObj [(''status'', JStr ''success''),
                  (''data'', JObj [(''dbStatus'',
                     JObj [(''readyState'', JNum (of_int readyState)),
                           (''readyStateText'', JStr readyStateText)])])]))"

section \<open>The response envelope\<close>

text \<open>The envelope \<open>{status, data|message}\<close>, and a reply that is JSON with that shape.\<close>

definition envelope :: "jsval \<Rightarrow> bool" where
  "envelope b \<longleftrightarrow> hasField ''status'' b \<and> (hasField ''data'' b \<or> hasField ''message'' b)"

definition uniformEnvelope :: "outcome \<Rightarrow> bool" where
  "uniformEnvelope out = (case out of Json c cookies b \<Rightarrow> envelope b | _ \<Rightarrow> False)"

text \<open>A handler that ended in an exception which is not a typed application error.\<close>

definition threw :: "outcome \<Rightarrow> bool" where
  "threw out = (case out of Throw err \<Rightarrow> True | _ \<Rightarrow> False)"

section \<open>Sample data\<close>

text \<open>A stand-in for the HMAC, and a small database, used to instantiate the theorems.\<close>

definition sample_hmac :: "string \<Rightarrow> string \<Rightarrow> string" where
  "sample_hmac key msg = key @ ''#'' @ msg"

definition sample_env :: env where
  "sample_env = \<lparr>RAZORPAY_KEY_SECRET = ''rzp'', STRIPE_WEBHOOK_SECRET = ''whsec'', JWT_SECRET = ''jwt''\<rparr>"

definition sample_purchase :: "objectId \<Rightarrow> objectId \<Rightarrow> string \<Rightarrow> string \<Rightarrow> purchase" where
  "sample_purchase u c st pay =
     \<lparr>userId = u, courseId = c, amount = 499, status = st, paymentId = pay,
      purchaseDate = None, razorpayPaymentId = None, razorpaySignature = None,
      failureReason = None\<rparr>"

definition sample_user :: "objectId \<Rightarrow> objectId list \<Rightarrow> user" where
  "sample_user u cs =
     \<lparr>user_id = u, name = ''Asha'', email = ''asha@example.org'', password = Some ''$2a$10$hash'',
      enrolledCourses = cs, photoUrl = None, passwordResetToken = None,
      passwordResetExpires = None\<rparr>"

definition sample_course :: "objectId \<Rightarrow> course" where
  "sample_course c =
     \<lparr>course_id = c, title = ''Algebra'', description = ''Groups and rings'', price = 499,
      thumbnail = None, instructor = 9, lectures = [], isPublished = True\<rparr>"

definition sample_db :: db where
  "sample_db =
     \<lparr>User = [sample_user 1 []], Course = [sample_course 2], Lecture = [],
      CoursePurchase = [sample_purchase 1 2 ''pending'' ''order_A'']\<rparr>"

definition sample_body :: "string \<Rightarrow> razorpay_body" where
  "sample_body sig =
     \<lparr>razorpay_order_id = ''order_A'', razorpay_payment_id = ''pay_1'',
      razorpay_signature = sig, error_description = None\<rparr>"

definition sample_constructEvent :: "string \<Rightarrow> string \<Rightarrow> string \<Rightarrow> string + stripe_event" where
  "sample_constructEvent payload sig secret =
     (if sig = secret then Inr \<lparr>event_type = payload, object_id = ''cs_1''\<rparr>
      else Inl ''No signatures found matching the expected signature for payload'')"

definition completed_req :: webhook_req where
  "completed_req = \<lparr>raw_body = ''checkout.session.completed'', stripe_signature = ''whsec''\<rparr>"

definition expired_req :: webhook_req where
  "expired_req = \<lparr>raw_body = ''checkout.session.expired'', stripe_signature = ''whsec''\<rparr>"

definition stripe_db :: db where
  "stripe_db =
     \<lparr>User = [sample_user 1 []], Course = [sample_course 2], Lecture = [],
      CoursePurchase = [sample_purchase 1 2 ''pending'' ''cs_1'']\<rparr>"

text \<open>The same purchase after the buyer has deleted the account.\<close>

definition orphan_db :: db where
  "orphan_db =
     \<lparr>User = [], Course = [sample_course 2], Lecture = [],
      CoursePurchase = [sample_purchase 1 2 ''pending'' ''cs_1'']\<rparr>"

text \<open>A completed Stripe purchase next to a pending Razorpay order.\<close>

definition mixed_db :: db where
  "mixed_db =
     \<lparr>User = [sample_user 1 [2]], Course = [sample_course 2, sample_course 4], Lecture = [],
      CoursePurchase = [sample_purchase 1 2 ''completed'' ''cs_1'',
                        sample_purchase 1 4 ''pending'' ''order_A'']\<rparr>"

definition sample_lecture :: "objectId \<Rightarrow> bool option \<Rightarrow> string \<Rightarrow> lecture" where
  "sample_lecture l pv url =
     \<lparr>lecture_id = l, lecture_title = ''Lecture'', lecture_description = ''About'',
      videoUrl = url, duration = Some 12, isPreview = pv, lecture_course = 2\<rparr>"

text \<open>A course with a preview lecture and a paid lecture; user 1 bought it, user 3 did not.\<close>

definition course_db :: db where
  "course_db =
     \<lparr>User = [sample_user 1 [2], sample_user 3 []],
      Course = [(sample_course 2)\<lparr>lectures := [10, 11]\<rparr>],
      Lecture = [sample_lecture 10 (Some True) ''https://cdn/intro.mp4'',
                 sample_lecture 11 (Some False) ''https://cdn/paid.mp4''],
      CoursePurchase = [sample_purchase 1 2 ''completed'' ''cs_1'']\<rparr>"

text \<open>
  Stand-ins for Mongoose's casts. An ObjectId is written as 24 hexadecimal digits; a
  number path takes a number, a string of decimal digits or a boolean; a string path
  takes a string.
\<close>

fun radixValue :: "(char \<times> nat) list \<Rightarrow> nat \<Rightarrow> string \<Rightarrow> nat \<Rightarrow> nat option" where
  "radixValue digits base [] n = Some n"
| "radixValue digits base (c # cs) n =
     (case map_of digits c of
        None \<Rightarrow> None
      | Some k \<Rightarrow> radixValue digits base cs (base * n + k))"

definition decimalDigits :: "(char \<times> nat) list" where
  "decimalDigits =
     [(CHR ''0'', 0), (CHR ''1'', 1), (CHR ''2'', 2), (CHR ''3'', 3), (CHR ''4'', 4),
      (CHR ''5'', 5), (CHR ''6'', 6), (CHR ''7'', 7), (CHR ''8'', 8), (CHR ''9'', 9)]"

definition hexDigits :: "(char \<times> nat) list" where
  "hexDigits =
     decimalDigits @
     [(CHR ''a'', 10), (CHR ''b'', 11), (CHR ''c'', 12), (CHR ''d'', 13), (CHR ''e'', 14),
      (CHR ''f'', 15), (CHR ''A'', 10), (CHR ''B'', 11), (CHR ''C'', 12), (CHR ''D'', 13),
      (CHR ''E'', 14), (CHR ''F'', 15)]"

definition sample_castObjectId :: "string \<Rightarrow> objectId option" where
  "sample_castObjectId s = (if length s = 24 then radixValue hexDigits 16 s 0 else None)"

definition sample_castString :: "jsval \<Rightarrow> string option" where
  "sample_castString x = (case x of JStr s \<Rightarrow> Some s | _ \<Rightarrow> None)"

definition sample_castNumber :: "jsval \<Rightarrow> rat option" where
  "sample_castNumber x =
     (case x of
        JNum n \<Rightarrow> Some n
      | JStr s \<Rightarrow> if s = [] then None else map_option of_nat (radixValue decimalDigits 10 s 0)
      | JBool b \<Rightarrow> Some (if b then 1 else 0)
      | _ \<Rightarrow> None)"

definition sample_upload :: "jsval \<Rightarrow> string option" where
  "sample_upload file =
     (case file of JStr path \<Rightarrow> Some (''https://res.cloudinary.com/'' @ path) | _ \<Rightarrow> None)"

text \<open>A body with an empty title, no description and the number 0 as price.\<close>

definition falsy_body :: course_body where
  "falsy_body = \<lparr>body_title = JStr [], body_description = JUndefined, body_price = JNum 0,
                  body_thumbnail = JUndefined\<rparr>"

text \<open>A body whose only field is the price, sent as the string "0".\<close>

definition zero_price_body :: course_body where
  "zero_price_body = \<lparr>body_title = JUndefined, body_description = JUndefined,
                       body_price = JStr ''0'', body_thumbnail = JUndefined\<rparr>"

definition sample_jwt_sign :: "jsval \<Rightarrow> string \<Rightarrow> string" where
  "sample_jwt_sign payload secret = ''jwt.'' @ secret"

definition sample_bcrypt_hash :: "string \<Rightarrow> string \<Rightarrow> string" where
  "sample_bcrypt_hash pw salt = salt @ pw"

definition sample_bcrypt_compare :: "string \<Rightarrow> string \<Rightarrow> bool" where
  "sample_bcrypt_compare pw hashed \<longleftrightarrow> hashed = ''$2a$10$'' @ pw"

definition sample_signup :: signup_body where
  "sample_signup = \<lparr>signup_name = ''Ravi'', signup_email = ''ravi@example.org'',
                     signup_password = ''s3cret''\<rparr>"

definition sample_signin :: signin_body where
  "sample_signin = \<lparr>signin_email = Some ''asha@example.org'', signin_password = Some ''hash''\<rparr>"

definition empty_db :: db where
  "empty_db = \<lparr>User = [], Course = [], Lecture = [], CoursePurchase = []\<rparr>"

section \<open>Properties of the collection primitives\<close>

lemma findIndex_Some_iff:
  "findIndex P xs = Some i \<longleftrightarrow> i < length xs \<and> P (xs ! i) \<and> (\<forall>k<i. \<not> P (xs ! k))"
proof (induction xs arbitrary: i)
  case Nil
  then show ?case by simp
next
  case (Cons x xs)
  show ?case
  proof (cases "P x")
    case True
    then show ?thesis by (cases i) auto
  next
    case False
    show ?thesis
    proof (cases i)
      case 0
      with False show ?thesis by auto
    next
      case (Suc j)
      have "(\<forall>k<Suc j. \<not> P ((x # xs) ! k)) \<longleftrightarrow> (\<forall>k<j. \<not> P (xs ! k))"
        using False by (auto simp: less_Suc_eq_0_disj)
      with False Suc Cons.IH [of j] show ?thesis by auto
    qed
  qed
qed

lemma findIndex_None_iff: "findIndex P xs = None \<longleftrightarrow> (\<forall>x\<in>set xs. \<not> P x)"
  by (induction xs) auto

lemma sample_castObjectId_99:
  "sample_castObjectId ''000000000000000000000063'' = Some 99"
  by (simp add: sample_castObjectId_def hexDigits_def decimalDigits_def)

lemma sample_castObjectId_2:
  "sample_castObjectId ''000000000000000000000002'' = Some 2"
  by (simp add: sample_castObjectId_def hexDigits_def decimalDigits_def)

lemmas sample_defs =
  sample_hmac_def sample_env_def sample_body_def sample_db_def sample_purchase_def
  sample_course_def sample_user_def sample_constructEvent_def completed_req_def
  expired_req_def stripe_db_def orphan_db_def mixed_db_def sample_lecture_def
  course_db_def sample_upload_def falsy_body_def zero_price_body_def
  sample_castObjectId_def sample_castString_def sample_castNumber_def hexDigits_def
  decimalDigits_def sample_jwt_sign_def sample_bcrypt_hash_def
  sample_bcrypt_compare_def sample_signup_def sample_signin_def empty_db_def

lemmas handler_defs =
  verifyPayment_def handlePaymentFailure_def handleStripeWebhook_def findOneAndUpdate_def
  findOne_def expectedSignature_def pendingOrder_def pendingSession_def enroll_def
  orDefault_def

section \<open>Payment verification\<close>

text \<open>
  C1. In \<open>verifyPayment\<close>, when the supplied \<open>razorpay_signature\<close> differs from the hex
  HMAC (keyed with the Razorpay key secret) of \<open>razorpay_order_id + "|" +
  razorpay_payment_id\<close>, the handler rejects with the 400 error and the first purchase
  that matches the order id, the user and status pending gets status failed, every other
  purchase staying as it was; when the signatures are equal, no purchase becomes failed.
\<close>

theorem verifyPayment_mismatch_marks_failed:
  "(razorpay_signature b \<noteq> expectedSignature hmac e b \<longrightarrow>
      snd (verifyPayment hmac e now uid b d) = Next (AppError ''Payment verification failed'' 400)
      \<and> length (CoursePurchase (fst (verifyPayment hmac e now uid b d))) = length (CoursePurchase d)
      \<and> (\<forall>i<length (CoursePurchase d).
            CoursePurchase (fst (verifyPayment hmac e now uid b d)) ! i =
              (if pendingOrder (razorpay_order_id b) uid (CoursePurchase d ! i)
                  \<and> (\<forall>k<i. \<not> pendingOrder (razorpay_order_id b) uid (CoursePurchase d ! k))
               then (CoursePurchase d ! i)\<lparr>status := ''failed''\<rparr>
               else CoursePurchase d ! i)))
   \<and> (razorpay_signature b = expectedSignature hmac e b \<longrightarrow>
        (\<forall>i<length (CoursePurchase d).
            status (CoursePurchase (fst (verifyPayment hmac e now uid b d)) ! i) = ''failed''
            \<longrightarrow> status (CoursePurchase d ! i) = ''failed''))"
proof (intro conjI impI allI)
  assume "razorpay_signature b \<noteq> expectedSignature hmac e b"
  then show "snd (verifyPayment hmac e now uid b d) = Next (AppError ''Payment verification failed'' 400)"
    by (auto simp: verifyPayment_def)
next
  assume "razorpay_signature b \<noteq> expectedSignature hmac e b"
  then show "length (CoursePurchase (fst (verifyPayment hmac e now uid b d))) = length (CoursePurchase d)"
    by (auto simp: verifyPayment_def findOneAndUpdate_def split: option.splits)
next
  fix i
  assume ne: "razorpay_signature b \<noteq> expectedSignature hmac e b" and i: "i < length (CoursePurchase d)"
  show "CoursePurchase (fst (verifyPayment hmac e now uid b d)) ! i =
              (if pendingOrder (razorpay_order_id b) uid (CoursePurchase d ! i)
                  \<and> (\<forall>k<i. \<not> pendingOrder (razorpay_order_id b) uid (CoursePurchase d ! k))
               then (CoursePurchase d ! i)\<lparr>status := ''failed''\<rparr>
               else CoursePurchase d ! i)"
  proof (cases "findIndex (pendingOrder (razorpay_order_id b) uid) (CoursePurchase d)")
    case None
    then have "\<not> pendingOrder (razorpay_order_id b) uid (CoursePurchase d ! i)"
      using i by (simp add: findIndex_None_iff)
    with None ne show ?thesis by (simp add: verifyPayment_def findOneAndUpdate_def)
  next
    case (Some j)
    then have j: "j < length (CoursePurchase d)" "pendingOrder (razorpay_order_id b) uid (CoursePurchase d ! j)"
      "\<forall>k<j. \<not> pendingOrder (razorpay_order_id b) uid (CoursePurchase d ! k)"
      by (simp_all add: findIndex_Some_iff)
    have "(pendingOrder (razorpay_order_id b) uid (CoursePurchase d ! i)
                  \<and> (\<forall>k<i. \<not> pendingOrder (razorpay_order_id b) uid (CoursePurchase d ! k))) \<longleftrightarrow> i = j"
      using j by (metis nat_neq_iff)
    with Some ne i show ?thesis by (simp add: verifyPayment_def findOneAndUpdate_def)
  qed
next
  fix i
  assume eq: "razorpay_signature b = expectedSignature hmac e b" and i: "i < length (CoursePurchase d)"
    and f: "status (CoursePurchase (fst (verifyPayment hmac e now uid b d)) ! i) = ''failed''"
  show "status (CoursePurchase d ! i) = ''failed''"
  proof (cases "findIndex (pendingOrder (razorpay_order_id b) uid) (CoursePurchase d)")
    case None
    with eq f show ?thesis by (simp add: verifyPayment_def findOneAndUpdate_def)
  next
    case (Some j)
    with eq f i show ?thesis
      by (cases "i = j") (auto simp: verifyPayment_def findOneAndUpdate_def findIndex_Some_iff split: option.splits)
  qed
qed

theorem verifyPayment_mismatch_marks_failed_witness:
  "razorpay_signature (sample_body ''forged'') \<noteq> expectedSignature sample_hmac sample_env (sample_body ''forged'')
   \<and> snd (verifyPayment sample_hmac sample_env 7 1 (sample_body ''forged'') sample_db)
       = Next (AppError ''Payment verification failed'' 400)
   \<and> status (CoursePurchase (fst (verifyPayment sample_hmac sample_env 7 1 (sample_body ''forged'') sample_db)) ! 0) = ''failed''
   \<and> razorpay_signature (sample_body ''rzp#order_A|pay_1'') = expectedSignature sample_hmac sample_env (sample_body ''rzp#order_A|pay_1'')
   \<and> status (CoursePurchase (fst (verifyPayment sample_hmac sample_env 7 1 (sample_body ''rzp#order_A|pay_1'') sample_db)) ! 0) = ''completed''"
  using verifyPayment_mismatch_marks_failed [of "sample_body ''forged''" sample_hmac sample_env 7 1 sample_db]
    verifyPayment_mismatch_marks_failed [of "sample_body ''rzp#order_A|pay_1''" sample_hmac sample_env 7 1 sample_db]
  by (simp add: verifyPayment_def findOneAndUpdate_def findOne_def expectedSignature_def sample_hmac_def
      sample_env_def sample_body_def sample_db_def sample_purchase_def sample_course_def sample_user_def
      pendingOrder_def enroll_def)


section \<open>The purchase lifecycle\<close>

lemma findOneAndUpdate_length: "length (fst (findOneAndUpdate P f xs)) = length xs"
  by (simp add: findOneAndUpdate_def split: option.splits)

lemma findOneAndUpdate_nth:
  "i < length xs \<Longrightarrow>
     fst (findOneAndUpdate P f xs) ! i = xs ! i
     \<or> (P (xs ! i) \<and> fst (findOneAndUpdate P f xs) ! i = f (xs ! i))"
proof (cases "findIndex P xs")
  case None
  then show ?thesis by (simp add: findOneAndUpdate_def)
next
  case (Some j)
  then have "P (xs ! j)" "j < length xs" by (simp_all add: findIndex_Some_iff)
  with Some show ?thesis by (cases "i = j") (simp_all add: findOneAndUpdate_def)
qed

lemma lifecycle_step_refl: "lifecycle_step s s"
  by (simp add: lifecycle_step_def)

lemma lifecycle_step_trans:
  "lifecycle_step a b \<Longrightarrow> lifecycle_step b c \<Longrightarrow> lifecycle_step a c"
  by (auto simp: lifecycle_step_def)

lemma findOneAndUpdate_lifecycle:
  assumes sel: "\<And>p. P p \<Longrightarrow> status p = ''pending''"
    and upd: "\<And>p. status (f p) = ''completed'' \<or> status (f p) = ''failed''"
    and i: "i < length xs"
  shows "lifecycle_step (status (xs ! i)) (status (fst (findOneAndUpdate P f xs) ! i))"
  using findOneAndUpdate_nth [OF i, of P f] sel [of "xs ! i"] upd [of "xs ! i"]
  by (auto simp: lifecycle_step_def)

lemma verifyPayment_purchases:
  "CoursePurchase (fst (verifyPayment hmac e now uid b d)) = CoursePurchase d
   \<or> CoursePurchase (fst (verifyPayment hmac e now uid b d)) =
        fst (findOneAndUpdate (pendingOrder (razorpay_order_id b) uid)
               (\<lambda>p. p\<lparr>status := ''failed''\<rparr>) (CoursePurchase d))
   \<or> CoursePurchase (fst (verifyPayment hmac e now uid b d)) =
        fst (findOneAndUpdate (pendingOrder (razorpay_order_id b) uid)
               (\<lambda>p. p\<lparr>status := ''completed'', purchaseDate := Some now,
                       razorpayPaymentId := Some (razorpay_payment_id b),
                       razorpaySignature := Some (razorpay_signature b)\<rparr>) (CoursePurchase d))"
  by (auto simp: verifyPayment_def Let_def split: prod.splits option.splits)

lemma handlePaymentFailure_purchases:
  "CoursePurchase (fst (handlePaymentFailure uid b d)) = CoursePurchase d
   \<or> CoursePurchase (fst (handlePaymentFailure uid b d)) =
        fst (findOneAndUpdate (pendingOrder (razorpay_order_id b) uid)
               (\<lambda>p. p\<lparr>status := ''failed'',
                     failureReason := Some (orDefault (error_description b) ''Payment failed'')\<rparr>)
               (CoursePurchase d))"
  by (auto simp: handlePaymentFailure_def split: prod.splits option.splits)

lemma handleStripeWebhook_length:
  "length (CoursePurchase (fst (handleStripeWebhook ce e now req d))) = length (CoursePurchase d)"
  by (auto simp: handleStripeWebhook_def findOneAndUpdate_def Let_def
      split: prod.splits option.splits sum.splits)

lemma handleStripeWebhook_lifecycle:
  "i < length (CoursePurchase d) \<Longrightarrow>
     lifecycle_step (status (CoursePurchase d ! i))
       (status (CoursePurchase (fst (handleStripeWebhook ce e now req d)) ! i))"
  by (auto simp: handleStripeWebhook_def findOneAndUpdate_def Let_def lifecycle_step_def
      nth_list_update findIndex_Some_iff pendingSession_def
      split: prod.splits option.splits sum.splits)

lemma apply_operation_length:
  "length (CoursePurchase (apply_operation ce hmac e op d)) = length (CoursePurchase d)"
proof (cases op)
  case (StripeWebhook now req)
  then show ?thesis
    by (simp add: handleStripeWebhook_length)
next
  case (VerifyPayment now uid b)
  then show ?thesis
    using verifyPayment_purchases [of hmac e now uid b d]
    by (auto simp: findOneAndUpdate_length)
next
  case (PaymentFailure uid b)
  then show ?thesis
    using handlePaymentFailure_purchases [of uid b d]
    by (auto simp: findOneAndUpdate_length)
qed

lemma apply_operation_lifecycle:
  assumes i: "i < length (CoursePurchase d)"
  shows "lifecycle_step (status (CoursePurchase d ! i))
           (status (CoursePurchase (apply_operation ce hmac e op d) ! i))"
proof (cases op)
  case (StripeWebhook now req)
  then show ?thesis
    using i by (simp add: handleStripeWebhook_lifecycle)
next
  case (VerifyPayment now uid b)
  then show ?thesis
    using verifyPayment_purchases [of hmac e now uid b d]
    by (auto simp: lifecycle_step_refl pendingOrder_def intro!: findOneAndUpdate_lifecycle [OF _ _ i])
next
  case (PaymentFailure uid b)
  then show ?thesis
    using handlePaymentFailure_purchases [of uid b d]
    by (auto simp: lifecycle_step_refl pendingOrder_def intro!: findOneAndUpdate_lifecycle [OF _ _ i])
qed

lemma run_operations_length:
  "length (CoursePurchase (run_operations ce hmac e ops d)) = length (CoursePurchase d)"
  by (induction ops arbitrary: d) (simp_all add: apply_operation_length)

lemma run_operations_lifecycle:
  "i < length (CoursePurchase d) \<Longrightarrow>
     lifecycle_step (status (CoursePurchase d ! i))
       (status (CoursePurchase (run_operations ce hmac e ops d) ! i))"
proof (induction ops arbitrary: d)
  case Nil
  then show ?case by (simp add: lifecycle_step_refl)
next
  case (Cons op ops)
  have "i < length (CoursePurchase (apply_operation ce hmac e op d))"
    using Cons.prems by (simp add: apply_operation_length)
  from Cons.IH [OF this] apply_operation_lifecycle [OF Cons.prems, of ce hmac e op]
  show ?case by (auto intro: lifecycle_step_trans)
qed

text \<open>
  C2. Over any sequence of \<open>handleStripeWebhook\<close>, \<open>verifyPayment\<close> and
  \<open>handlePaymentFailure\<close> calls no purchase is created or removed, and the status of
  each purchase either stays as it was or moves from pending to completed or from pending
  to failed; a purchase that is completed or failed keeps that status.
\<close>

theorem purchase_status_lifecycle:
  "length (CoursePurchase (run_operations ce hmac e ops d)) = length (CoursePurchase d)
   \<and> (\<forall>i<length (CoursePurchase d).
         lifecycle_step (status (CoursePurchase d ! i))
           (status (CoursePurchase (run_operations ce hmac e ops d) ! i))
         \<and> (status (CoursePurchase d ! i) = ''completed'' \<or> status (CoursePurchase d ! i) = ''failed''
              \<longrightarrow> status (CoursePurchase (run_operations ce hmac e ops d) ! i)
                    = status (CoursePurchase d ! i)))"
proof (intro conjI allI impI)
  show "length (CoursePurchase (run_operations ce hmac e ops d)) = length (CoursePurchase d)"
    by (rule run_operations_length)
next
  fix i assume "i < length (CoursePurchase d)"
  then show "lifecycle_step (status (CoursePurchase d ! i))
           (status (CoursePurchase (run_operations ce hmac e ops d) ! i))"
    by (rule run_operations_lifecycle)
next
  fix i assume i: "i < length (CoursePurchase d)"
    and "status (CoursePurchase d ! i) = ''completed'' \<or> status (CoursePurchase d ! i) = ''failed''"
  with run_operations_lifecycle [OF i, of ce hmac e ops]
  show "status (CoursePurchase (run_operations ce hmac e ops d) ! i) = status (CoursePurchase d ! i)"
    by (auto simp: lifecycle_step_def)
qed

theorem purchase_status_lifecycle_witness:
  "(0::nat) < length (CoursePurchase mixed_db) \<and> (1::nat) < length (CoursePurchase mixed_db)
   \<and> status (CoursePurchase mixed_db ! 0) = ''completed''
   \<and> status (CoursePurchase (run_operations sample_constructEvent sample_hmac sample_env
        [StripeWebhook 6 expired_req, PaymentFailure 1 (sample_body ''x'')] mixed_db) ! 0)
       = ''completed''
   \<and> status (CoursePurchase mixed_db ! 1) = ''pending''
   \<and> status (CoursePurchase (run_operations sample_constructEvent sample_hmac sample_env
        [StripeWebhook 6 expired_req, PaymentFailure 1 (sample_body ''x'')] mixed_db) ! 1)
       = ''failed''
   \<and> lifecycle_step ''pending'' ''failed''"
  using purchase_status_lifecycle [of sample_constructEvent sample_hmac sample_env
      "[StripeWebhook 6 expired_req, PaymentFailure 1 (sample_body ''x'')]" mixed_db]
  by (simp add: sample_defs handler_defs lifecycle_step_def)


section \<open>Enrollment on completion\<close>

lemma findIndex_update_hit:
  "findIndex P xs = Some j \<Longrightarrow> P y \<Longrightarrow> findIndex P (xs[j := y]) = Some j"
  by (auto simp: findIndex_Some_iff)

lemma findIndex_less: "findIndex P xs = Some j \<Longrightarrow> j < length xs"
  by (simp add: findIndex_Some_iff)

lemma findIndex_holds: "findIndex P xs = Some j \<Longrightarrow> P (xs ! j)"
  by (simp add: findIndex_Some_iff)

lemma enrolledIn_after_push:
  assumes "findIndex (\<lambda>u. user_id u = uid) us = Some j"
  shows "enrolledIn (d\<lparr>User := us[j := (us ! j)\<lparr>enrolledCourses := enrolledCourses (us ! j) @ [cid]\<rparr>]\<rparr>) uid cid"
proof -
  have "user_id ((us ! j)\<lparr>enrolledCourses := enrolledCourses (us ! j) @ [cid]\<rparr>) = uid"
    using findIndex_holds [OF assms] by simp
  then have "findIndex (\<lambda>u. user_id u = uid)
      (us[j := (us ! j)\<lparr>enrolledCourses := enrolledCourses (us ! j) @ [cid]\<rparr>]) = Some j"
    using findIndex_update_hit [OF assms, of "(us ! j)\<lparr>enrolledCourses := enrolledCourses (us ! j) @ [cid]\<rparr>"]
    by simp
  then show ?thesis
    using findIndex_less [OF assms] by (simp add: enrolledIn_def findOne_def)
qed

lemma enrolledIn_present:
  assumes "findIndex (\<lambda>u. user_id u = uid) (User d) = Some j"
    and "cid \<in> set (enrolledCourses (User d ! j))"
  shows "enrolledIn d uid cid"
  using assms by (simp add: enrolledIn_def findOne_def)

text \<open>
  C3, as the code has it. When the webhook's \<open>checkout.session.completed\<close> case or a
  \<open>verifyPayment\<close> call with a valid signature marks a purchase completed, and the buying
  user's document exists (for \<open>verifyPayment\<close> also the purchased course's document),
  the course reference is afterwards in that user's \<open>enrolledCourses\<close>: it is appended
  exactly when it was not there, and the user collection is otherwise unchanged.
\<close>

theorem completed_purchase_enrolls:
  "(ce (raw_body req) (stripe_signature req) (STRIPE_WEBHOOK_SECRET e) = Inr ev
      \<and> event_type ev = ''checkout.session.completed''
      \<and> findIndex (pendingSession (object_id ev)) (CoursePurchase d) = Some i
      \<and> findIndex (\<lambda>u. user_id u = userId (CoursePurchase d ! i)) (User d) = Some j
    \<longrightarrow> status (CoursePurchase (fst (handleStripeWebhook ce e now req d)) ! i) = ''completed''
        \<and> enrolledIn (fst (handleStripeWebhook ce e now req d))
             (userId (CoursePurchase d ! i)) (courseId (CoursePurchase d ! i))
        \<and> User (fst (handleStripeWebhook ce e now req d)) =
            (if courseId (CoursePurchase d ! i) \<in> set (enrolledCourses (User d ! j)) then User d
             else (User d)[j := (User d ! j)\<lparr>enrolledCourses :=
                      enrolledCourses (User d ! j) @ [courseId (CoursePurchase d ! i)]\<rparr>]))
   \<and> (razorpay_signature b = expectedSignature hmac e b
      \<and> findIndex (pendingOrder (razorpay_order_id b) uid) (CoursePurchase d) = Some i'
      \<and> findIndex (\<lambda>c. course_id c = courseId (CoursePurchase d ! i')) (Course d) = Some k
      \<and> findIndex (\<lambda>u. user_id u = uid) (User d) = Some j'
    \<longrightarrow> status (CoursePurchase (fst (verifyPayment hmac e now uid b d)) ! i') = ''completed''
        \<and> enrolledIn (fst (verifyPayment hmac e now uid b d)) uid (courseId (CoursePurchase d ! i'))
        \<and> User (fst (verifyPayment hmac e now uid b d)) =
            (if courseId (CoursePurchase d ! i') \<in> set (enrolledCourses (User d ! j')) then User d
             else (User d)[j' := (User d ! j')\<lparr>enrolledCourses :=
                      enrolledCourses (User d ! j') @ [courseId (CoursePurchase d ! i')]\<rparr>]))"
proof (intro conjI impI)
  assume a: "ce (raw_body req) (stripe_signature req) (STRIPE_WEBHOOK_SECRET e) = Inr ev
      \<and> event_type ev = ''checkout.session.completed''
      \<and> findIndex (pendingSession (object_id ev)) (CoursePurchase d) = Some i
      \<and> findIndex (\<lambda>u. user_id u = userId (CoursePurchase d ! i)) (User d) = Some j"
  then have i: "i < length (CoursePurchase d)" by (auto dest: findIndex_less)
  from a i show "status (CoursePurchase (fst (handleStripeWebhook ce e now req d)) ! i) = ''completed''"
    by (simp add: handleStripeWebhook_def Let_def)
  from a show "User (fst (handleStripeWebhook ce e now req d)) =
            (if courseId (CoursePurchase d ! i) \<in> set (enrolledCourses (User d ! j)) then User d
             else (User d)[j := (User d ! j)\<lparr>enrolledCourses :=
                      enrolledCourses (User d ! j) @ [courseId (CoursePurchase d ! i)]\<rparr>])"
    by (simp add: handleStripeWebhook_def Let_def)
  show "enrolledIn (fst (handleStripeWebhook ce e now req d))
             (userId (CoursePurchase d ! i)) (courseId (CoursePurchase d ! i))"
  proof (cases "courseId (CoursePurchase d ! i) \<in> set (enrolledCourses (User d ! j))")
    case True
    with a show ?thesis
      by (simp add: handleStripeWebhook_def Let_def enrolledIn_def findOne_def)
  next
    case False
    with a enrolledIn_after_push [where uid = "userId (CoursePurchase d ! i)" and us = "User d"
        and j = j and cid = "courseId (CoursePurchase d ! i)"
        and d = "d\<lparr>CoursePurchase := (CoursePurchase d)[i := (CoursePurchase d ! i)
                   \<lparr>status := ''completed'', purchaseDate := Some now\<rparr>]\<rparr>"]
    show ?thesis
      by (simp add: handleStripeWebhook_def Let_def)
  qed
next
  assume a: "razorpay_signature b = expectedSignature hmac e b
      \<and> findIndex (pendingOrder (razorpay_order_id b) uid) (CoursePurchase d) = Some i'
      \<and> findIndex (\<lambda>c. course_id c = courseId (CoursePurchase d ! i')) (Course d) = Some k
      \<and> findIndex (\<lambda>u. user_id u = uid) (User d) = Some j'"
  then have i: "i' < length (CoursePurchase d)" by (auto dest: findIndex_less)
  from a have c: "course_id (Course d ! k) = courseId (CoursePurchase d ! i')"
    using findIndex_holds [of "\<lambda>c. course_id c = courseId (CoursePurchase d ! i')" "Course d" k] by simp
  from a i c show "status (CoursePurchase (fst (verifyPayment hmac e now uid b d)) ! i') = ''completed''"
    by (simp add: verifyPayment_def findOneAndUpdate_def findOne_def)
  from a c show "User (fst (verifyPayment hmac e now uid b d)) =
            (if courseId (CoursePurchase d ! i') \<in> set (enrolledCourses (User d ! j')) then User d
             else (User d)[j' := (User d ! j')\<lparr>enrolledCourses :=
                      enrolledCourses (User d ! j') @ [courseId (CoursePurchase d ! i')]\<rparr>])"
    by (simp add: verifyPayment_def findOneAndUpdate_def findOne_def enroll_def)
  show "enrolledIn (fst (verifyPayment hmac e now uid b d)) uid (courseId (CoursePurchase d ! i'))"
  proof (cases "courseId (CoursePurchase d ! i') \<in> set (enrolledCourses (User d ! j'))")
    case True
    with a c show ?thesis
      by (simp add: verifyPayment_def findOneAndUpdate_def findOne_def enroll_def enrolledIn_def)
  next
    case False
    with a c enrolledIn_after_push [where uid = uid and us = "User d" and j = j'
        and cid = "courseId (CoursePurchase d ! i')"
        and d = "d\<lparr>CoursePurchase := (CoursePurchase d)[i' := (CoursePurchase d ! i')
                   \<lparr>status := ''completed'', purchaseDate := Some now,
                    razorpayPaymentId := Some (razorpay_payment_id b),
                    razorpaySignature := Some (razorpay_signature b)\<rparr>]\<rparr>"]
    show ?thesis
      by (simp add: verifyPayment_def findOneAndUpdate_def findOne_def enroll_def)
  qed
qed

theorem completed_purchase_enrolls_witness:
  "sample_constructEvent (raw_body completed_req) (stripe_signature completed_req)
       (STRIPE_WEBHOOK_SECRET sample_env) = Inr \<lparr>event_type = ''checkout.session.completed'', object_id = ''cs_1''\<rparr>
   \<and> findIndex (pendingSession ''cs_1'') (CoursePurchase stripe_db) = Some 0
   \<and> findIndex (\<lambda>u. user_id u = userId (CoursePurchase stripe_db ! 0)) (User stripe_db) = Some 0
   \<and> enrolledIn (fst (handleStripeWebhook sample_constructEvent sample_env 5 completed_req stripe_db)) 1 2
   \<and> razorpay_signature (sample_body ''rzp#order_A|pay_1'')
        = expectedSignature sample_hmac sample_env (sample_body ''rzp#order_A|pay_1'')
   \<and> findIndex (pendingOrder ''order_A'' 1) (CoursePurchase sample_db) = Some 0
   \<and> findIndex (\<lambda>c. course_id c = courseId (CoursePurchase sample_db ! 0)) (Course sample_db) = Some 0
   \<and> findIndex (\<lambda>u. user_id u = 1) (User sample_db) = Some 0
   \<and> enrolledIn (fst (verifyPayment sample_hmac sample_env 7 1 (sample_body ''rzp#order_A|pay_1'') sample_db)) 1 2"
  using completed_purchase_enrolls [of sample_constructEvent completed_req sample_env
      "\<lparr>event_type = ''checkout.session.completed'', object_id = ''cs_1''\<rparr>" stripe_db 0 0 5
      "sample_body ''rzp#order_A|pay_1''" sample_hmac 1 0 0 0]
    completed_purchase_enrolls [of sample_constructEvent completed_req sample_env
      "\<lparr>event_type = ''checkout.session.completed'', object_id = ''cs_1''\<rparr>" sample_db 0 0 7
      "sample_body ''rzp#order_A|pay_1''" sample_hmac 1 0 0 0]
  by (simp add: sample_defs handler_defs)

text \<open>
  C3 as stated fails when \<open>User.findById\<close> finds nobody (the buyer deleted the account
  between checkout and the webhook): the guard \<open>if (user && ...)\<close> skips the enrollment,
  so the purchase is completed and no user lists the course.
\<close>

theorem completed_purchase_enrolls_counterexample:
  "status (CoursePurchase (fst (handleStripeWebhook sample_constructEvent sample_env 5 completed_req orphan_db)) ! 0) = ''completed''
   \<and> userId (CoursePurchase (fst (handleStripeWebhook sample_constructEvent sample_env 5 completed_req orphan_db)) ! 0) = 1
   \<and> courseId (CoursePurchase (fst (handleStripeWebhook sample_constructEvent sample_env 5 completed_req orphan_db)) ! 0) = 2
   \<and> \<not> enrolledIn (fst (handleStripeWebhook sample_constructEvent sample_env 5 completed_req orphan_db)) 1 2
   \<and> User (fst (handleStripeWebhook sample_constructEvent sample_env 5 completed_req orphan_db)) = []"
  by (simp add: sample_defs handler_defs enrolledIn_def)

section \<open>Redelivery of a webhook event\<close>

lemma findIndex_update_miss:
  "findIndex P xs = Some j \<Longrightarrow> \<not> P y \<Longrightarrow> length (filter P xs) \<le> 1
     \<Longrightarrow> findIndex P (xs[j := y]) = None"
proof (induction xs arbitrary: j)
  case Nil
  then show ?case by simp
next
  case (Cons x xs)
  show ?case
  proof (cases "P x")
    case True
    with Cons.prems have "j = 0" "filter P xs = []" by auto
    with Cons.prems True show ?thesis
      by (auto simp: findIndex_None_iff filter_empty_conv)
  next
    case False
    with Cons.prems obtain k where k: "j = Suc k" "findIndex P xs = Some k" by auto
    with Cons.prems False Cons.IH [of k] show ?thesis by simp
  qed
qed

lemma webhook_redelivery_one_pending:
  assumes "\<forall>ev. ce (raw_body req) (stripe_signature req) (STRIPE_WEBHOOK_SECRET e) = Inr ev
             \<longrightarrow> length (filter (pendingSession (object_id ev)) (CoursePurchase d)) \<le> 1"
  shows "fst (handleStripeWebhook ce e now2 req (fst (handleStripeWebhook ce e now1 req d)))
           = fst (handleStripeWebhook ce e now1 req d)"
proof (cases "ce (raw_body req) (stripe_signature req) (STRIPE_WEBHOOK_SECRET e)")
  case (Inl msg)
  then show ?thesis by (simp add: handleStripeWebhook_def)
next
  case (Inr ev)
  with assms have one: "length (filter (pendingSession (object_id ev)) (CoursePurchase d)) \<le> 1"
    by simp
  show ?thesis
  proof (cases "findIndex (pendingSession (object_id ev)) (CoursePurchase d)")
    case None
    with Inr show ?thesis
      by (simp add: handleStripeWebhook_def findOneAndUpdate_def)
  next
    case (Some i)
    have gone: "findIndex (pendingSession (object_id ev)) ((CoursePurchase d)[i := p]) = None"
      if "status p \<noteq> ''pending''" for p
      using findIndex_update_miss [OF Some _ one, of p] that by (simp add: pendingSession_def)
    show ?thesis
      using Inr Some
      by (auto simp: handleStripeWebhook_def findOneAndUpdate_def Let_def gone
          split: option.splits)
  qed
qed

lemma distinct_paymentId_one_match:
  "distinct (map paymentId ps) \<Longrightarrow> length (filter (\<lambda>p. paymentId p = sid) ps) \<le> 1"
proof (induction ps)
  case Nil
  then show ?case by simp
next
  case (Cons p ps)
  show ?case
  proof (cases "paymentId p = sid")
    case True
    with Cons.prems have "\<forall>q\<in>set ps. paymentId q \<noteq> sid" by (auto simp: image_iff)
    then have "filter (\<lambda>p. paymentId p = sid) ps = []" by (simp add: filter_empty_conv)
    with True show ?thesis by simp
  next
    case False
    with Cons show ?thesis by simp
  qed
qed

lemma distinct_paymentId_one_pending:
  assumes "distinct (map paymentId ps)"
  shows "length (filter (pendingSession sid) ps) \<le> 1"
proof -
  have "length (filter (pendingSession sid) ps) \<le> length (filter (\<lambda>p. paymentId p = sid) ps)"
    by (induction ps) (simp_all add: pendingSession_def)
  with distinct_paymentId_one_match [OF assms, of sid] show ?thesis by simp
qed

lemma map_paymentId_findOneAndUpdate:
  assumes "\<And>p. paymentId (f p) = paymentId p"
  shows "map paymentId (fst (findOneAndUpdate P f ps)) = map paymentId ps"
proof (cases "findIndex P ps")
  case None
  then show ?thesis by (simp add: findOneAndUpdate_def)
next
  case (Some i)
  then have "i < length ps" by (simp add: findIndex_Some_iff)
  with Some assms show ?thesis
    by (simp add: findOneAndUpdate_def map_update list_update_same_conv)
qed

lemma handleStripeWebhook_paymentIds:
  "map paymentId (CoursePurchase (fst (handleStripeWebhook ce e now req d)))
     = map paymentId (CoursePurchase d)"
  by (auto simp: handleStripeWebhook_def findOneAndUpdate_def Let_def map_update
      list_update_same_conv findIndex_Some_iff split: sum.splits option.splits)

lemma verifyPayment_paymentIds:
  "map paymentId (CoursePurchase (fst (verifyPayment hmac e now uid b d)))
     = map paymentId (CoursePurchase d)"
  by (auto simp: verifyPayment_def findOneAndUpdate_def Let_def map_update findOne_def
      list_update_same_conv findIndex_Some_iff split: sum.splits option.splits)

lemma handlePaymentFailure_paymentIds:
  "map paymentId (CoursePurchase (fst (handlePaymentFailure uid b d)))
     = map paymentId (CoursePurchase d)"
  by (auto simp: handlePaymentFailure_def findOneAndUpdate_def Let_def map_update
      list_update_same_conv findIndex_Some_iff split: sum.splits option.splits)

lemma initiateStripeCheckout_paymentIds:
  "map paymentId (CoursePurchase (fst (initiateStripeCheckout cast session uid rawId d)))
     = map paymentId (CoursePurchase d)
   \<or> (\<exists>ss. session = Some ss
        \<and> map paymentId (CoursePurchase (fst (initiateStripeCheckout cast session uid rawId d)))
            = map paymentId (CoursePurchase d) @ [session_id ss])"
  by (auto simp: initiateStripeCheckout_def newPurchase_def split: option.splits)

lemma createRazorpayOrder_paymentIds:
  "map paymentId (CoursePurchase (fst (createRazorpayOrder cast order keyId uid rawId d)))
     = map paymentId (CoursePurchase d)
   \<or> (\<exists>ord. order = Some ord
        \<and> map paymentId (CoursePurchase (fst (createRazorpayOrder cast order keyId uid rawId d)))
            = map paymentId (CoursePurchase d) @ [order_id ord])"
  by (auto simp: createRazorpayOrder_def newPurchase_def split: option.splits)

lemma distinct_paymentIds_preserved:
  assumes "distinct (map paymentId (CoursePurchase d))"
  shows "distinct (map paymentId (CoursePurchase (fst (handleStripeWebhook ce e now req d))))"
    and "distinct (map paymentId (CoursePurchase (fst (verifyPayment hmac e now uid b d))))"
    and "distinct (map paymentId (CoursePurchase (fst (handlePaymentFailure uid b d))))"
    and "(\<And>ss. session = Some ss \<Longrightarrow> session_id ss \<notin> set (map paymentId (CoursePurchase d)))
          \<Longrightarrow> distinct (map paymentId
                (CoursePurchase (fst (initiateStripeCheckout cast session uid rawId d))))"
    and "(\<And>ord. order = Some ord \<Longrightarrow> order_id ord \<notin> set (map paymentId (CoursePurchase d)))
          \<Longrightarrow> distinct (map paymentId
                (CoursePurchase (fst (createRazorpayOrder cast order keyId uid rawId d))))"
proof -
  show "distinct (map paymentId (CoursePurchase (fst (handleStripeWebhook ce e now req d))))"
    using assms by (simp add: handleStripeWebhook_paymentIds)
  show "distinct (map paymentId (CoursePurchase (fst (verifyPayment hmac e now uid b d))))"
    using assms by (simp add: verifyPayment_paymentIds)
  show "distinct (map paymentId (CoursePurchase (fst (handlePaymentFailure uid b d))))"
    using assms by (simp add: handlePaymentFailure_paymentIds)
  show "distinct (map paymentId
                (CoursePurchase (fst (initiateStripeCheckout cast session uid rawId d))))"
    if "\<And>ss. session = Some ss \<Longrightarrow> session_id ss \<notin> set (map paymentId (CoursePurchase d))"
    using initiateStripeCheckout_paymentIds [of cast session uid rawId d] assms that by auto
  show "distinct (map paymentId
                (CoursePurchase (fst (createRazorpayOrder cast order keyId uid rawId d))))"
    if "\<And>ord. order = Some ord \<Longrightarrow> order_id ord \<notin> set (map paymentId (CoursePurchase d))"
    using createRazorpayOrder_paymentIds [of cast order keyId uid rawId d] assms that by auto
qed

text \<open>
  C4. Purchases are stored under the id the provider has just issued and no handler changes
  a \<open>paymentId\<close> (\<open>distinct_paymentIds_preserved\<close>), so the stored external ids are
  distinct. On such a database, handling the same webhook request a second time, at any
  later time, leaves the whole database, purchases and enrollments, as the first handling
  left it: the record the first delivery found is no longer pending and no other record
  carries its id.
\<close>

theorem webhook_redelivery_idempotent:
  assumes "distinct (map paymentId (CoursePurchase d))"
  shows "fst (handleStripeWebhook ce e now2 req (fst (handleStripeWebhook ce e now1 req d)))
           = fst (handleStripeWebhook ce e now1 req d)"
  using distinct_paymentId_one_pending [OF assms]
  by (intro webhook_redelivery_one_pending) simp

theorem webhook_redelivery_idempotent_witness:
  "distinct (map paymentId (CoursePurchase stripe_db))
   \<and> fst (handleStripeWebhook sample_constructEvent sample_env 6 completed_req
        (fst (handleStripeWebhook sample_constructEvent sample_env 5 completed_req stripe_db)))
      = fst (handleStripeWebhook sample_constructEvent sample_env 5 completed_req stripe_db)
   \<and> status (CoursePurchase (fst (handleStripeWebhook sample_constructEvent sample_env 5
        completed_req stripe_db)) ! 0) = ''completed''
   \<and> enrolledCourses (User (fst (handleStripeWebhook sample_constructEvent sample_env 5
        completed_req stripe_db)) ! 0) = [2]
   \<and> fst (handleStripeWebhook sample_constructEvent sample_env 6 expired_req
        (fst (handleStripeWebhook sample_constructEvent sample_env 5 expired_req stripe_db)))
      = fst (handleStripeWebhook sample_constructEvent sample_env 5 expired_req stripe_db)
   \<and> status (CoursePurchase (fst (handleStripeWebhook sample_constructEvent sample_env 5
        expired_req stripe_db)) ! 0) = ''failed''"
proof -
  have dist: "distinct (map paymentId (CoursePurchase stripe_db))"
    by (simp add: sample_defs)
  have s: "status (CoursePurchase (fst (handleStripeWebhook sample_constructEvent sample_env 5
        completed_req stripe_db)) ! 0) = ''completed''"
    "enrolledCourses (User (fst (handleStripeWebhook sample_constructEvent sample_env 5
        completed_req stripe_db)) ! 0) = [2]"
    "status (CoursePurchase (fst (handleStripeWebhook sample_constructEvent sample_env 5
        expired_req stripe_db)) ! 0) = ''failed''"
    by (simp_all add: sample_defs handler_defs)
  from dist s
    webhook_redelivery_idempotent [OF dist, of sample_constructEvent sample_env 6 completed_req 5]
    webhook_redelivery_idempotent [OF dist, of sample_constructEvent sample_env 6 expired_req 5]
  show ?thesis by blast
qed

section \<open>Database calls of the webhook\<close>

text \<open>
  C6, as the code has it. For an event accepted by \<open>constructEvent\<close> the handler branches
  on the event type. The expired case makes one lookup and one write exactly when a pending
  purchase is selected. The completed case makes one purchase lookup and, when a pending
  purchase is found, a purchase write, a user lookup and a user write for a user not yet
  enrolled: between one and two lookups and up to two writes. Any other type makes no
  database call and changes nothing.
\<close>

theorem webhook_database_calls:
  "ce (raw_body req) (stripe_signature req) (STRIPE_WEBHOOK_SECRET e) = Inr ev \<longrightarrow>
     (event_type ev = ''checkout.session.completed'' \<longrightarrow>
        fst (snd (handleStripeWebhook ce e now req d)) =
          (case findIndex (pendingSession (object_id ev)) (CoursePurchase d) of
             None \<Rightarrow> [Lookup CoursePurchases]
           | Some i \<Rightarrow>
               [Lookup CoursePurchases, Write CoursePurchases, Lookup Users] @
               (case findOne (\<lambda>u. user_id u = userId (CoursePurchase d ! i)) (User d) of
                  None \<Rightarrow> []
                | Some u \<Rightarrow>
                    if courseId (CoursePurchase d ! i) \<in> set (enrolledCourses u) then []
                    else [Write Users]))
        \<and> 1 \<le> lookups (fst (snd (handleStripeWebhook ce e now req d)))
        \<and> lookups (fst (snd (handleStripeWebhook ce e now req d))) \<le> 2
        \<and> writes (fst (snd (handleStripeWebhook ce e now req d))) \<le> 2)
     \<and> (event_type ev = ''checkout.session.expired'' \<longrightarrow>
          lookups (fst (snd (handleStripeWebhook ce e now req d))) = 1
          \<and> writes (fst (snd (handleStripeWebhook ce e now req d))) =
              (if \<exists>p\<in>set (CoursePurchase d). pendingSession (object_id ev) p then 1 else 0))
     \<and> (event_type ev \<noteq> ''checkout.session.completed''
          \<and> event_type ev \<noteq> ''checkout.session.expired'' \<longrightarrow>
          fst (snd (handleStripeWebhook ce e now req d)) = []
          \<and> fst (handleStripeWebhook ce e now req d) = d)"
  by (auto simp: handleStripeWebhook_def findOneAndUpdate_def findOne_def Let_def lookups_def
      writes_def findIndex_None_iff findIndex_less split: option.splits dest: findIndex_holds)

theorem webhook_database_calls_witness:
  "sample_constructEvent (raw_body expired_req) (stripe_signature expired_req)
       (STRIPE_WEBHOOK_SECRET sample_env) = Inr \<lparr>event_type = ''checkout.session.expired'', object_id = ''cs_1''\<rparr>
   \<and> (\<exists>p\<in>set (CoursePurchase stripe_db). pendingSession ''cs_1'' p)
   \<and> lookups (fst (snd (handleStripeWebhook sample_constructEvent sample_env 5 expired_req stripe_db))) = 1
   \<and> writes (fst (snd (handleStripeWebhook sample_constructEvent sample_env 5 expired_req stripe_db))) = 1
   \<and> sample_constructEvent (raw_body completed_req) (stripe_signature completed_req)
       (STRIPE_WEBHOOK_SECRET sample_env) = Inr \<lparr>event_type = ''checkout.session.completed'', object_id = ''cs_1''\<rparr>
   \<and> fst (snd (handleStripeWebhook sample_constructEvent sample_env 5 completed_req stripe_db))
       = [Lookup CoursePurchases, Write CoursePurchases, Lookup Users, Write Users]"
  using webhook_database_calls [of sample_constructEvent expired_req sample_env
      "\<lparr>event_type = ''checkout.session.expired'', object_id = ''cs_1''\<rparr>" 5 stripe_db]
    webhook_database_calls [of sample_constructEvent completed_req sample_env
      "\<lparr>event_type = ''checkout.session.completed'', object_id = ''cs_1''\<rparr>" 5 stripe_db]
  by (simp add: sample_defs handler_defs lookups_def writes_def)

text \<open>
  C6 as stated fails in the completed case: with a pending purchase and a user not yet
  enrolled the handler makes two lookups and two writes.
\<close>

theorem webhook_database_calls_counterexample:
  "lookups (fst (snd (handleStripeWebhook sample_constructEvent sample_env 5 completed_req stripe_db))) = 2
   \<and> writes (fst (snd (handleStripeWebhook sample_constructEvent sample_env 5 completed_req stripe_db))) = 2"
  by (simp add: sample_defs handler_defs lookups_def writes_def)


section \<open>Lecture videos and purchase status\<close>

lemma findIndex_map: "findIndex P (map g xs) = findIndex (\<lambda>x. P (g x)) xs"
  by (induction xs) simp_all

lemma findOne_map:
  "findOne P (map g xs) = map_option g (findOne (\<lambda>x. P (g x)) xs)"
proof (cases "findIndex (\<lambda>x. P (g x)) xs")
  case None
  then show ?thesis by (simp add: findOne_def findIndex_map)
next
  case (Some i)
  then have "i < length xs" by (simp add: findIndex_Some_iff)
  with Some show ?thesis by (simp add: findOne_def findIndex_map)
qed

lemma map_filter_map_option:
  "List.map_filter (\<lambda>i. map_option g (h i)) ids = map g (List.map_filter h ids)"
  by (induction ids) (auto simp: map_filter_simps split: option.splits)

lemma lecturePreview_other_video:
  "lecturePreview (if isPreview l = Some True then l else l\<lparr>videoUrl := u\<rparr>) = lecturePreview l"
  by (simp add: lecturePreview_def)

lemma populateLectures_withOtherVideos:
  "populateLectures (withOtherVideos f d) ids =
     map (\<lambda>l. if isPreview l = Some True then l else l\<lparr>videoUrl := f l\<rparr>) (populateLectures d ids)"
proof -
  have "(\<lambda>l. lecture_id (if isPreview l = Some True then l else l\<lparr>videoUrl := f l\<rparr>) = i)
          = (\<lambda>l. lecture_id l = i)" for i
    by auto
  then show ?thesis
    by (simp add: populateLectures_def withOtherVideos_def findOne_map map_filter_map_option)
qed

lemma hasField_videoUrl_preview:
  "hasField ''videoUrl'' (lecturePreview l) \<longleftrightarrow> isPreview l = Some True"
  by (simp add: hasField_def getField_def lecturePreview_def)

lemma responseLectures_getCoursePurchaseStatus:
  assumes "findOne (\<lambda>c. course_id c = cid) (Course d) = Some c"
  shows "responseLectures (getCoursePurchaseStatus uid cid d) =
     (if findOne (completedPurchase uid cid) (CoursePurchase d) = None
      then JArr (map lecturePreview (populateLectures d (lectures c)))
      else JArr (map (\<lambda>l. JObj (lecture_toObject l)) (populateLectures d (lectures c))))"
  using assms
  by (simp add: getCoursePurchaseStatus_def responseLectures_def responseBody_def getField_def
      Let_def populatedCourse_def course_toObject_def)

lemma getCoursePurchaseStatus_withOtherVideos:
  assumes "findOne (completedPurchase uid cid) (CoursePurchase d) = None"
  shows "getCoursePurchaseStatus uid cid (withOtherVideos f d) = getCoursePurchaseStatus uid cid d"
proof -
  have same: "Course (withOtherVideos f d) = Course d"
    "CoursePurchase (withOtherVideos f d) = CoursePurchase d"
    "User (withOtherVideos f d) = User d"
    by (simp_all add: withOtherVideos_def)
  have inst: "populateInstructor (withOtherVideos f d) = populateInstructor d"
    by (rule ext) (simp add: populateInstructor_def same)
  have prev: "map lecturePreview (populateLectures (withOtherVideos f d) ids)
                = map lecturePreview (populateLectures d ids)" for ids
    by (simp add: populateLectures_withOtherVideos lecturePreview_other_video o_def)
  show ?thesis
    using assms
    by (simp add: getCoursePurchaseStatus_def same inst prev Let_def populatedCourse_def
        course_toObject_def split: option.splits)
qed

text \<open>
  C8. In \<open>getCoursePurchaseStatus\<close> for an existing course: when the user has no completed
  purchase of it, the lectures of the response are the projected objects, each of which has
  a \<open>videoUrl\<close> field if and only if the lecture's \<open>isPreview\<close> flag is true, and the
  whole reply is the same whatever the video URLs of the non-preview lectures are; when the
  user has a completed purchase, the lectures of the response are the full lecture objects.
\<close>

theorem purchase_status_hides_videos:
  "findOne (\<lambda>c. course_id c = cid) (Course d) = Some c \<longrightarrow>
     (findOne (completedPurchase uid cid) (CoursePurchase d) = None \<longrightarrow>
        responseLectures (getCoursePurchaseStatus uid cid d)
          = JArr (map lecturePreview (populateLectures d (lectures c)))
        \<and> (\<forall>l\<in>set (populateLectures d (lectures c)).
              hasField ''videoUrl'' (lecturePreview l) \<longleftrightarrow> isPreview l = Some True)
        \<and> getCoursePurchaseStatus uid cid (withOtherVideos f d) = getCoursePurchaseStatus uid cid d)
     \<and> (findOne (completedPurchase uid cid) (CoursePurchase d) \<noteq> None \<longrightarrow>
        responseLectures (getCoursePurchaseStatus uid cid d)
          = JArr (map (\<lambda>l. JObj (lecture_toObject l)) (populateLectures d (lectures c))))"
  using responseLectures_getCoursePurchaseStatus [of cid d c uid]
    getCoursePurchaseStatus_withOtherVideos [of uid cid d f]
  by (simp add: hasField_videoUrl_preview)

theorem purchase_status_hides_videos_witness:
  "findOne (\<lambda>c. course_id c = 2) (Course course_db) = Some ((sample_course 2)\<lparr>lectures := [10, 11]\<rparr>)
   \<and> findOne (completedPurchase 3 2) (CoursePurchase course_db) = None
   \<and> findOne (completedPurchase 1 2) (CoursePurchase course_db) \<noteq> None
   \<and> populateLectures course_db [10, 11] =
        [sample_lecture 10 (Some True) ''https://cdn/intro.mp4'',
         sample_lecture 11 (Some False) ''https://cdn/paid.mp4'']
   \<and> responseLectures (getCoursePurchaseStatus 3 2 course_db) =
        JArr [JObj [(''_id'', JId 10), (''title'', JStr ''Lecture''), (''description'', JStr ''About''),
                    (''duration'', JNum 12), (''isPreview'', JBool True),
                    (''videoUrl'', JStr ''https://cdn/intro.mp4'')],
              JObj [(''_id'', JId 11), (''title'', JStr ''Lecture''), (''description'', JStr ''About''),
                    (''duration'', JNum 12), (''isPreview'', JBool False)]]
   \<and> responseLectures (getCoursePurchaseStatus 1 2 course_db) =
        JArr [JObj (lecture_toObject (sample_lecture 10 (Some True) ''https://cdn/intro.mp4'')),
              JObj (lecture_toObject (sample_lecture 11 (Some False) ''https://cdn/paid.mp4''))]"
  using purchase_status_hides_videos [of 2 course_db "(sample_course 2)\<lparr>lectures := [10, 11]\<rparr>" 3 "\<lambda>l. ''x''"]
    purchase_status_hides_videos [of 2 course_db "(sample_course 2)\<lparr>lectures := [10, 11]\<rparr>" 1 "\<lambda>l. ''x''"]
  by (simp add: sample_defs findOne_def completedPurchase_def populateLectures_def
      map_filter_simps lecturePreview_def optNum_def getField_def)

section \<open>Signup and signin\<close>

lemma generateToken_undefined_user:
  "generateToken jwt_sign e res JUndefined message = Inl TypeError"
  by (simp add: generateToken_def getProp_def)

lemma createUserAccount_fresh_email_throws:
  "findOne (\<lambda>u. email u = signup_email b) (User d) = None \<Longrightarrow>
     snd (createUserAccount jwt_sign bcrypt_hash salt newId e b d) = Throw TypeError
     \<and> length (User (fst (createUserAccount jwt_sign bcrypt_hash salt newId e b d)))
         = Suc (length (User d))"
  by (simp add: createUserAccount_def generateToken_undefined_user Let_def)

lemma createUserAccount_no_success:
  "snd (createUserAccount jwt_sign bcrypt_hash salt newId e b d) \<noteq> Json c cookies body"
  by (simp add: createUserAccount_def generateToken_undefined_user Let_def split: option.splits)

lemma authenticateUser_no_success:
  "authenticateUser jwt_sign bcrypt_compare e b d \<noteq> Json c cookies body"
  by (simp add: authenticateUser_def generateToken_undefined_user Let_def
      split: option.splits prod.splits)

text \<open>
  C9. The claim describes the reply of a successful signup or signin, with the password
  removed from the user object. The handlers call \<open>generateToken(user._id)\<close> with one
  argument, while \<open>generateToken\<close> takes \<open>(res, user, message)\<close>: its \<open>user\<close> is
  undefined and \<open>user._id\<close> throws. A signup with a fresh email stores the account and
  ends in that exception; a signin with the right password ends in it as well. Neither
  handler ever reaches its success reply.
\<close>

theorem signup_signin_throw_in_generateToken:
  "createUserAccount sample_jwt_sign sample_bcrypt_hash ''$2a$10$'' 5 sample_env sample_signup empty_db
     = (\<lparr>User = [\<lparr>user_id = 5, name = ''Ravi'', email = ''ravi@example.org'',
                    password = Some ''$2a$10$s3cret'', enrolledCourses = [], photoUrl = None,
                    passwordResetToken = None, passwordResetExpires = None\<rparr>],
          Course = [], Lecture = [], CoursePurchase = []\<rparr>,
        Throw TypeError)
   \<and> authenticateUser sample_jwt_sign sample_bcrypt_compare sample_env sample_signin sample_db
       = Throw TypeError"
  by (simp add: createUserAccount_def authenticateUser_def generateToken_def getProp_def
      findOne_def sample_defs Let_def)



section \<open>A course that does not exist\<close>

text \<open>
  C7, as the code has it. For a \<open>courseId\<close> that Mongoose casts to an ObjectId which no
  course in the database has, \<open>getCourseDetails\<close> hands
  \<open>AppError("Course not found", 404)\<close> to \<open>next\<close>; the wrapper serializes it as
  status 404 with body \<open>{status: "error", message: "Course not found"}\<close>, which has no
  \<open>data\<close> field. For a \<open>courseId\<close> that cannot be cast, \<open>Course.findById\<close> rejects
  with a \<open>CastError\<close> and the handler raises no error of its own.
\<close>

theorem getCourseDetails_not_found:
  "(castObjectId rawId = Some cid \<and> (\<forall>c\<in>set (Course d). course_id c \<noteq> cid) \<longrightarrow>
      getCourseDetails castObjectId rawId d = Next (AppError ''Course not found'' 404)
      \<and> catchAsync (getCourseDetails castObjectId rawId d) =
          Json 404 [] (JObj [(''status'', JStr ''error''), (''message'', JStr ''Course not found'')])
      \<and> \<not> hasField ''data'' (responseBody (catchAsync (getCourseDetails castObjectId rawId d))))
   \<and> (castObjectId rawId = None \<longrightarrow> getCourseDetails castObjectId rawId d = Throw CastError)"
proof (intro conjI impI)
  assume a: "castObjectId rawId = Some cid \<and> (\<forall>c\<in>set (Course d). course_id c \<noteq> cid)"
  then have "findIndex (\<lambda>c. course_id c = cid) (Course d) = None"
    by (simp add: findIndex_None_iff)
  with a show nf: "getCourseDetails castObjectId rawId d = Next (AppError ''Course not found'' 404)"
    by (simp add: getCourseDetails_def findOne_def)
  then show "catchAsync (getCourseDetails castObjectId rawId d) =
          Json 404 [] (JObj [(''status'', JStr ''error''), (''message'', JStr ''Course not found'')])"
    by (simp add: catchAsync_def errorHandler_def)
  from nf show "\<not> hasField ''data'' (responseBody (catchAsync (getCourseDetails castObjectId rawId d)))"
    by (simp add: catchAsync_def errorHandler_def hasField_def getField_def responseBody_def)
next
  assume "castObjectId rawId = None"
  then show "getCourseDetails castObjectId rawId d = Throw CastError"
    by (simp add: getCourseDetails_def)
qed

theorem getCourseDetails_not_found_witness:
  "sample_castObjectId ''000000000000000000000063'' = Some 99
   \<and> map course_id (Course sample_db) = [2]
   \<and> getCourseDetails sample_castObjectId ''000000000000000000000063'' sample_db
       = Next (AppError ''Course not found'' 404)
   \<and> catchAsync (getCourseDetails sample_castObjectId ''000000000000000000000063'' sample_db) =
         Json 404 [] (JObj [(''status'', JStr ''error''), (''message'', JStr ''Course not found'')])"
proof -
  have c: "sample_castObjectId ''000000000000000000000063'' = Some 99"
    by (rule sample_castObjectId_99)
  have ids: "map course_id (Course sample_db) = [2]"
    by (simp add: sample_db_def sample_course_def)
  then have nomatch: "\<forall>c\<in>set (Course sample_db). course_id c \<noteq> 99"
    by (simp add: sample_db_def sample_course_def)
  from c ids nomatch
    getCourseDetails_not_found [of sample_castObjectId "''000000000000000000000063''" 99 sample_db]
  show ?thesis by (simp add: catchAsync_def errorHandler_def)
qed

text \<open>
  C7 as stated fails for a URL segment that is not an ObjectId: no course matches it, yet
  the handler ends in the \<open>CastError\<close> of \<open>Course.findById\<close> and the 404 error is
  never raised.
\<close>

theorem getCourseDetails_not_found_counterexample:
  "sample_castObjectId ''intro-to-algebra'' = None
   \<and> getCourseDetails sample_castObjectId ''intro-to-algebra'' sample_db = Throw CastError
   \<and> catchAsync (getCourseDetails sample_castObjectId ''intro-to-algebra'' sample_db)
       = Throw CastError"
  by (simp add: sample_castObjectId_def getCourseDetails_def catchAsync_def)

section \<open>Updating a course\<close>

lemma truthy_falsy_values:
  "\<not> truthy JUndefined" "\<not> truthy JNull" "\<not> truthy (JBool False)" "\<not> truthy (JNum 0)"
  "\<not> truthy (JStr [])"
  by (simp_all add: truthy_def)

lemma updateCourseDetails_length:
  "length (Course (fst (updateCourseDetails castObjectId castString castNumber uploadMedia rawId b d)))
     = length (Course d)"
  by (auto simp: updateCourseDetails_def Let_def split: option.splits sum.splits prod.splits)

lemma updateCourseDetails_frame:
  assumes "k < length (Course d)"
  shows "instructor (Course (fst (updateCourseDetails castObjectId castString castNumber uploadMedia rawId b d)) ! k)
             = instructor (Course d ! k)
         \<and> lectures (Course (fst (updateCourseDetails castObjectId castString castNumber uploadMedia rawId b d)) ! k)
             = lectures (Course d ! k)
         \<and> isPublished (Course (fst (updateCourseDetails castObjectId castString castNumber uploadMedia rawId b d)) ! k)
             = isPublished (Course d ! k)"
  using assms
  by (auto simp: updateCourseDetails_def Let_def nth_list_update findIndex_Some_iff
      split: option.splits sum.splits prod.splits)

lemma updateCourseDetails_falsy_field:
  assumes "castObjectId rawId = Some cid"
    and "findIndex (\<lambda>c. course_id c = cid) (Course d) = Some i"
  shows "\<not> truthy (body_title b) \<Longrightarrow>
           title (Course (fst (updateCourseDetails castObjectId castString castNumber uploadMedia rawId b d)) ! i)
             = title (Course d ! i)"
    and "\<not> truthy (body_description b) \<Longrightarrow>
           description (Course (fst (updateCourseDetails castObjectId castString castNumber uploadMedia rawId b d)) ! i)
             = description (Course d ! i)"
    and "\<not> truthy (body_price b) \<Longrightarrow>
           price (Course (fst (updateCourseDetails castObjectId castString castNumber uploadMedia rawId b d)) ! i)
             = price (Course d ! i)"
proof -
  from assms(2) have i: "i < length (Course d)" by (simp add: findIndex_Some_iff)
  show "\<not> truthy (body_title b) \<Longrightarrow>
           title (Course (fst (updateCourseDetails castObjectId castString castNumber uploadMedia rawId b d)) ! i)
             = title (Course d ! i)"
    using assms i
    by (auto simp: updateCourseDetails_def Let_def orKeep_def
        split: option.splits sum.splits prod.splits if_splits)
  show "\<not> truthy (body_description b) \<Longrightarrow>
           description (Course (fst (updateCourseDetails castObjectId castString castNumber uploadMedia rawId b d)) ! i)
             = description (Course d ! i)"
    using assms i
    by (auto simp: updateCourseDetails_def Let_def orKeep_def
        split: option.splits sum.splits prod.splits if_splits)
  show "\<not> truthy (body_price b) \<Longrightarrow>
           price (Course (fst (updateCourseDetails castObjectId castString castNumber uploadMedia rawId b d)) ! i)
             = price (Course d ! i)"
    using assms i
    by (auto simp: updateCourseDetails_def Let_def orKeep_def
        split: option.splits sum.splits prod.splits if_splits)
qed

text \<open>
  C10, as the code has it. For an existing course, \<open>updateCourseDetails\<close> leaves the
  title unchanged when the supplied title is falsy (absent, null, false, the number 0 or
  the empty string), the description and the price likewise; whatever the request, it
  creates or removes no course and changes the \<open>instructor\<close>, \<open>lectures\<close> and
  \<open>isPublished\<close> fields of no course.
\<close>

theorem updateCourseDetails_keeps_falsy:
  "(castObjectId rawId = Some cid \<and> findIndex (\<lambda>c. course_id c = cid) (Course d) = Some i \<longrightarrow>
      ((body_title b = JUndefined \<or> body_title b = JNull \<or> body_title b = JBool False
          \<or> body_title b = JNum 0 \<or> body_title b = JStr []) \<longrightarrow>
         title (Course (fst (updateCourseDetails castObjectId castString castNumber uploadMedia
                  rawId b d)) ! i) = title (Course d ! i))
      \<and> ((body_description b = JUndefined \<or> body_description b = JNull
            \<or> body_description b = JBool False \<or> body_description b = JNum 0
            \<or> body_description b = JStr []) \<longrightarrow>
         description (Course (fst (updateCourseDetails castObjectId castString castNumber
                  uploadMedia rawId b d)) ! i) = description (Course d ! i))
      \<and> ((body_price b = JUndefined \<or> body_price b = JNull \<or> body_price b = JBool False
            \<or> body_price b = JNum 0 \<or> body_price b = JStr []) \<longrightarrow>
         price (Course (fst (updateCourseDetails castObjectId castString castNumber uploadMedia
                  rawId b d)) ! i) = price (Course d ! i)))
   \<and> length (Course (fst (updateCourseDetails castObjectId castString castNumber uploadMedia
                rawId b d))) = length (Course d)
   \<and> (\<forall>k<length (Course d).
         instructor (Course (fst (updateCourseDetails castObjectId castString castNumber
                  uploadMedia rawId b d)) ! k) = instructor (Course d ! k)
         \<and> lectures (Course (fst (updateCourseDetails castObjectId castString castNumber
                  uploadMedia rawId b d)) ! k) = lectures (Course d ! k)
         \<and> isPublished (Course (fst (updateCourseDetails castObjectId castString castNumber
                  uploadMedia rawId b d)) ! k) = isPublished (Course d ! k))"
proof -
  have falsy: "\<not> truthy v"
    if "v = JUndefined \<or> v = JNull \<or> v = JBool False \<or> v = JNum 0 \<or> v = JStr []" for v
    using that by (auto simp: truthy_def)
  have fields: "castObjectId rawId = Some cid \<and> findIndex (\<lambda>c. course_id c = cid) (Course d) = Some i \<longrightarrow>
      ((body_title b = JUndefined \<or> body_title b = JNull \<or> body_title b = JBool False
          \<or> body_title b = JNum 0 \<or> body_title b = JStr []) \<longrightarrow>
         title (Course (fst (updateCourseDetails castObjectId castString castNumber uploadMedia
                  rawId b d)) ! i) = title (Course d ! i))
      \<and> ((body_description b = JUndefined \<or> body_description b = JNull
            \<or> body_description b = JBool False \<or> body_description b = JNum 0
            \<or> body_description b = JStr []) \<longrightarrow>
         description (Course (fst (updateCourseDetails castObjectId castString castNumber
                  uploadMedia rawId b d)) ! i) = description (Course d ! i))
      \<and> ((body_price b = JUndefined \<or> body_price b = JNull \<or> body_price b = JBool False
            \<or> body_price b = JNum 0 \<or> body_price b = JStr []) \<longrightarrow>
         price (Course (fst (updateCourseDetails castObjectId castString castNumber uploadMedia
                  rawId b d)) ! i) = price (Course d ! i))"
  proof
    assume "castObjectId rawId = Some cid \<and> findIndex (\<lambda>c. course_id c = cid) (Course d) = Some i"
    then have c: "castObjectId rawId = Some cid"
      and f: "findIndex (\<lambda>c. course_id c = cid) (Course d) = Some i" by simp_all
    note keep = updateCourseDetails_falsy_field
      [where castObjectId = castObjectId and rawId = rawId and cid = cid and d = d and i = i
         and b = b and castString = castString and castNumber = castNumber
         and uploadMedia = uploadMedia, OF c f]
    from keep falsy [of "body_title b"] falsy [of "body_description b"] falsy [of "body_price b"]
    show "((body_title b = JUndefined \<or> body_title b = JNull \<or> body_title b = JBool False
          \<or> body_title b = JNum 0 \<or> body_title b = JStr []) \<longrightarrow>
         title (Course (fst (updateCourseDetails castObjectId castString castNumber uploadMedia
                  rawId b d)) ! i) = title (Course d ! i))
      \<and> ((body_description b = JUndefined \<or> body_description b = JNull
            \<or> body_description b = JBool False \<or> body_description b = JNum 0
            \<or> body_description b = JStr []) \<longrightarrow>
         description (Course (fst (updateCourseDetails castObjectId castString castNumber
                  uploadMedia rawId b d)) ! i) = description (Course d ! i))
      \<and> ((body_price b = JUndefined \<or> body_price b = JNull \<or> body_price b = JBool False
            \<or> body_price b = JNum 0 \<or> body_price b = JStr []) \<longrightarrow>
         price (Course (fst (updateCourseDetails castObjectId castString castNumber uploadMedia
                  rawId b d)) ! i) = price (Course d ! i))"
      by blast
  qed
  have len: "length (Course (fst (updateCourseDetails castObjectId castString castNumber uploadMedia
                rawId b d))) = length (Course d)"
    by (rule updateCourseDetails_length)
  have frame: "\<forall>k<length (Course d).
         instructor (Course (fst (updateCourseDetails castObjectId castString castNumber
                  uploadMedia rawId b d)) ! k) = instructor (Course d ! k)
         \<and> lectures (Course (fst (updateCourseDetails castObjectId castString castNumber
                  uploadMedia rawId b d)) ! k) = lectures (Course d ! k)
         \<and> isPublished (Course (fst (updateCourseDetails castObjectId castString castNumber
                  uploadMedia rawId b d)) ! k) = isPublished (Course d ! k)"
    using updateCourseDetails_frame by blast
  show ?thesis
    by (intro conjI) (rule fields, rule len, rule frame)
qed

theorem updateCourseDetails_keeps_falsy_witness:
  "sample_castObjectId ''000000000000000000000002'' = Some 2
   \<and> findIndex (\<lambda>c. course_id c = 2) (Course sample_db) = Some 0
   \<and> body_title falsy_body = JStr []
   \<and> body_description falsy_body = JUndefined
   \<and> body_price falsy_body = JNum 0
   \<and> (0::nat) < length (Course sample_db)
   \<and> price (Course (fst (updateCourseDetails sample_castObjectId sample_castString
        sample_castNumber sample_upload ''000000000000000000000002'' falsy_body sample_db)) ! 0) = 499
   \<and> title (Course (fst (updateCourseDetails sample_castObjectId sample_castString
        sample_castNumber sample_upload ''000000000000000000000002'' falsy_body sample_db)) ! 0)
       = ''Algebra''
   \<and> snd (updateCourseDetails sample_castObjectId sample_castString sample_castNumber
        sample_upload ''000000000000000000000002'' falsy_body sample_db) =
       Json 200 [] (JObj [(''status'', JStr ''success''),
          (''data'', JObj [(''course'', JObj (course_toObject (sample_course 2) (JId 9) (JArr [])))])])"
  using updateCourseDetails_keeps_falsy [of sample_castObjectId "''000000000000000000000002''" 2
      sample_db 0 falsy_body sample_castString sample_castNumber sample_upload]
  by (simp add: sample_castObjectId_2 sample_db_def sample_course_def sample_user_def
      sample_purchase_def falsy_body_def updateCourseDetails_def orKeep_def truthy_def Let_def)

text \<open>
  C10 as stated fails in its clause that a price of 0 cannot be set: the string \<open>"0"\<close> is
  truthy, so \<open>price || course.price\<close> keeps it, and the number path stores it as 0.
\<close>

theorem updateCourseDetails_keeps_falsy_counterexample:
  "price (Course sample_db ! 0) = 499
   \<and> body_price zero_price_body = JStr ''0''
   \<and> truthy (JStr ''0'')
   \<and> snd (updateCourseDetails sample_castObjectId sample_castString sample_castNumber
        sample_upload ''000000000000000000000002'' zero_price_body sample_db) =
       Json 200 [] (JObj [(''status'', JStr ''success''),
          (''data'', JObj [(''course'',
             JObj (course_toObject ((sample_course 2)\<lparr>price := 0\<rparr>) (JId 9) (JArr [])))])])
   \<and> price (Course (fst (updateCourseDetails sample_castObjectId sample_castString
        sample_castNumber sample_upload ''000000000000000000000002'' zero_price_body sample_db)) ! 0)
       = 0"
  by (simp add: sample_castObjectId_2 sample_db_def sample_course_def sample_user_def
      sample_purchase_def zero_price_body_def updateCourseDetails_def orKeep_def truthy_def
      Let_def sample_castNumber_def decimalDigits_def)

section \<open>Replies and the envelope\<close>

lemma reply_createNewCourse:
  "threw (createNewCourse thumbnailResult newCourse)
     \<or> uniformEnvelope (catchAsync (createNewCourse thumbnailResult newCourse))"
  by (auto simp: createNewCourse_def threw_def uniformEnvelope_def envelope_def hasField_def getField_def
      catchAsync_def errorHandler_def Let_def 
      split: option.splits sum.splits prod.splits if_splits)

lemma reply_searchCourses:
  "uniformEnvelope (catchAsync (searchCourses courses))"
  by (auto simp: searchCourses_def threw_def uniformEnvelope_def envelope_def hasField_def getField_def
      catchAsync_def errorHandler_def Let_def 
      split: option.splits sum.splits prod.splits if_splits)

lemma reply_getPublishedCourses:
  "uniformEnvelope (catchAsync (getPublishedCourses courses))"
  by (auto simp: getPublishedCourses_def threw_def uniformEnvelope_def envelope_def hasField_def getField_def
      catchAsync_def errorHandler_def Let_def 
      split: option.splits sum.splits prod.splits if_splits)

lemma reply_getMyCreatedCourses:
  "uniformEnvelope (catchAsync (getMyCreatedCourses courses))"
  by (auto simp: getMyCreatedCourses_def threw_def uniformEnvelope_def envelope_def hasField_def getField_def
      catchAsync_def errorHandler_def Let_def 
      split: option.splits sum.splits prod.splits if_splits)

lemma reply_updateCourseDetails:
  "threw (snd (updateCourseDetails castObjectId castString castNumber uploadMedia rawId cb d))
     \<or> uniformEnvelope (catchAsync (snd (updateCourseDetails castObjectId castString castNumber uploadMedia rawId cb d)))"
  by (auto simp: updateCourseDetails_def threw_def uniformEnvelope_def envelope_def hasField_def getField_def
      catchAsync_def errorHandler_def Let_def 
      split: option.splits sum.splits prod.splits if_splits)

lemma reply_getCourseDetails:
  "threw (getCourseDetails castObjectId rawId d)
     \<or> uniformEnvelope (catchAsync (getCourseDetails castObjectId rawId d))"
  by (auto simp: getCourseDetails_def threw_def uniformEnvelope_def envelope_def hasField_def getField_def
      catchAsync_def errorHandler_def Let_def 
      split: option.splits sum.splits prod.splits if_splits)

lemma reply_addLectureToCourse:
  "uniformEnvelope (catchAsync (addLectureToCourse crs newLecture))"
  by (auto simp: addLectureToCourse_def threw_def uniformEnvelope_def envelope_def hasField_def getField_def
      catchAsync_def errorHandler_def Let_def 
      split: option.splits sum.splits prod.splits if_splits)

lemma reply_getCourseLectures:
  "uniformEnvelope (catchAsync (getCourseLectures lects))"
  by (auto simp: getCourseLectures_def threw_def uniformEnvelope_def envelope_def hasField_def getField_def
      catchAsync_def errorHandler_def Let_def 
      split: option.splits sum.splits prod.splits if_splits)

lemma reply_createUserAccount:
  "threw (snd (createUserAccount jwt_sign bcrypt_hash salt newId e sb d))
     \<or> uniformEnvelope (catchAsync (snd (createUserAccount jwt_sign bcrypt_hash salt newId e sb d)))"
  by (auto simp: createUserAccount_def threw_def uniformEnvelope_def envelope_def hasField_def getField_def
      catchAsync_def errorHandler_def Let_def generateToken_undefined_user
      split: option.splits sum.splits prod.splits if_splits)

lemma reply_authenticateUser:
  "threw (authenticateUser jwt_sign bcrypt_compare e lb d)
     \<or> uniformEnvelope (catchAsync (authenticateUser jwt_sign bcrypt_compare e lb d))"
  by (auto simp: authenticateUser_def threw_def uniformEnvelope_def envelope_def hasField_def getField_def
      catchAsync_def errorHandler_def Let_def generateToken_undefined_user
      split: option.splits sum.splits prod.splits if_splits)

lemma reply_signOutUser:
  "uniformEnvelope (catchAsync (signOutUser))"
  by (auto simp: signOutUser_def threw_def uniformEnvelope_def envelope_def hasField_def getField_def
      catchAsync_def errorHandler_def Let_def 
      split: option.splits sum.splits prod.splits if_splits)

lemma reply_getCurrentUserProfile:
  "uniformEnvelope (catchAsync (getCurrentUserProfile usr))"
  by (auto simp: getCurrentUserProfile_def threw_def uniformEnvelope_def envelope_def hasField_def getField_def
      catchAsync_def errorHandler_def Let_def 
      split: option.splits sum.splits prod.splits if_splits)

lemma reply_updateUserProfile:
  "threw (updateUserProfile eml photo existingUser currentUser uploadResult updatedUser)
     \<or> uniformEnvelope (catchAsync (updateUserProfile eml photo existingUser currentUser uploadResult updatedUser))"
  by (auto simp: updateUserProfile_def threw_def uniformEnvelope_def envelope_def hasField_def getField_def
      catchAsync_def errorHandler_def Let_def 
      split: option.splits sum.splits prod.splits if_splits)

lemma reply_changeUserPassword:
  "uniformEnvelope (catchAsync (changeUserPassword currentPassword newPassword pwUser isCurrentPasswordValid))"
  by (auto simp: changeUserPassword_def threw_def uniformEnvelope_def envelope_def hasField_def getField_def
      catchAsync_def errorHandler_def Let_def 
      split: option.splits sum.splits prod.splits if_splits)

lemma reply_forgotPassword:
  "uniformEnvelope (catchAsync (forgotPassword fpUser resetToken resetUrl))"
  by (auto simp: forgotPassword_def threw_def uniformEnvelope_def envelope_def hasField_def getField_def
      catchAsync_def errorHandler_def Let_def 
      split: option.splits sum.splits prod.splits if_splits)

lemma reply_resetPassword:
  "threw (resetPassword jwt_sign e pw rpUser)
     \<or> uniformEnvelope (catchAsync (resetPassword jwt_sign e pw rpUser))"
  by (auto simp: resetPassword_def threw_def uniformEnvelope_def envelope_def hasField_def getField_def
      catchAsync_def errorHandler_def Let_def generateToken_undefined_user
      split: option.splits sum.splits prod.splits if_splits)

lemma reply_deleteUserAccount:
  "uniformEnvelope (catchAsync (deleteUserAccount pw duUser isPasswordValid))"
  by (auto simp: deleteUserAccount_def threw_def uniformEnvelope_def envelope_def hasField_def getField_def
      catchAsync_def errorHandler_def Let_def 
      split: option.splits sum.splits prod.splits if_splits)

lemma reply_createRazorpayOrder:
  "threw (snd (createRazorpayOrder castObjectId order keyId uid rawId d))
     \<or> uniformEnvelope (catchAsync (snd (createRazorpayOrder castObjectId order keyId uid rawId d)))"
  by (auto simp: createRazorpayOrder_def threw_def uniformEnvelope_def envelope_def hasField_def getField_def
      catchAsync_def errorHandler_def Let_def 
      split: option.splits sum.splits prod.splits if_splits)

lemma reply_verifyPayment:
  "threw (snd (verifyPayment hmac e now uid rb d))
     \<or> uniformEnvelope (catchAsync (snd (verifyPayment hmac e now uid rb d)))"
  by (auto simp: verifyPayment_def threw_def uniformEnvelope_def envelope_def hasField_def getField_def
      catchAsync_def errorHandler_def Let_def findOneAndUpdate_def findOne_def
      split: option.splits sum.splits prod.splits if_splits)

lemma reply_handlePaymentFailure:
  "uniformEnvelope (catchAsync (snd (handlePaymentFailure uid rb d)))"
  by (auto simp: handlePaymentFailure_def threw_def uniformEnvelope_def envelope_def hasField_def getField_def
      catchAsync_def errorHandler_def Let_def findOneAndUpdate_def
      split: option.splits sum.splits prod.splits if_splits)

lemma reply_getPaymentStatus:
  "uniformEnvelope (catchAsync (getPaymentStatus found))"
  by (auto simp: getPaymentStatus_def threw_def uniformEnvelope_def envelope_def hasField_def getField_def
      catchAsync_def errorHandler_def Let_def 
      split: option.splits sum.splits prod.splits if_splits)

lemma reply_initiateStripeCheckout:
  "threw (snd (initiateStripeCheckout castObjectId session uid rawId d))
     \<or> uniformEnvelope (catchAsync (snd (initiateStripeCheckout castObjectId session uid rawId d)))"
  by (auto simp: initiateStripeCheckout_def threw_def uniformEnvelope_def envelope_def hasField_def getField_def
      catchAsync_def errorHandler_def Let_def 
      split: option.splits sum.splits prod.splits if_splits)

lemma reply_getCoursePurchaseStatus:
  "uniformEnvelope (catchAsync (getCoursePurchaseStatus uid cid d))"
  by (auto simp: getCoursePurchaseStatus_def threw_def uniformEnvelope_def envelope_def hasField_def getField_def
      catchAsync_def errorHandler_def Let_def 
      split: option.splits sum.splits prod.splits if_splits)

lemma reply_getPurchasedCourses:
  "threw (getPurchasedCourses purchases)
     \<or> uniformEnvelope (catchAsync (getPurchasedCourses purchases))"
  by (auto simp: getPurchasedCourses_def threw_def uniformEnvelope_def envelope_def hasField_def getField_def
      catchAsync_def errorHandler_def Let_def 
      split: option.splits sum.splits prod.splits if_splits)

lemma reply_getUserCourseProgress:
  "threw (getUserCourseProgress progress)
     \<or> uniformEnvelope (catchAsync (getUserCourseProgress progress))"
  by (auto simp: getUserCourseProgress_def threw_def uniformEnvelope_def envelope_def hasField_def getField_def
      catchAsync_def errorHandler_def Let_def 
      split: option.splits sum.splits prod.splits if_splits)

lemma reply_updateLectureProgress:
  "threw (updateLectureProgress progress)
     \<or> uniformEnvelope (catchAsync (updateLectureProgress progress))"
  by (auto simp: updateLectureProgress_def threw_def uniformEnvelope_def envelope_def hasField_def getField_def
      catchAsync_def errorHandler_def Let_def 
      split: option.splits sum.splits prod.splits if_splits)

lemma reply_markCourseAsCompleted:
  "threw (markCourseAsCompleted progress)
     \<or> uniformEnvelope (catchAsync (markCourseAsCompleted progress))"
  by (auto simp: markCourseAsCompleted_def threw_def uniformEnvelope_def envelope_def hasField_def getField_def
      catchAsync_def errorHandler_def Let_def 
      split: option.splits sum.splits prod.splits if_splits)

lemma reply_resetCourseProgress:
  "threw (resetCourseProgress progress)
     \<or> uniformEnvelope (catchAsync (resetCourseProgress progress))"
  by (auto simp: resetCourseProgress_def threw_def uniformEnvelope_def envelope_def hasField_def getField_def
      catchAsync_def errorHandler_def Let_def 
      split: option.splits sum.splits prod.splits if_splits)

lemma reply_checkHealth:
  "uniformEnvelope (catchAsync (checkHealth readyState))"
  by (auto simp: checkHealth_def threw_def uniformEnvelope_def envelope_def hasField_def getField_def
      catchAsync_def errorHandler_def Let_def 
      split: option.splits sum.splits prod.splits if_splits)

text \<open>
  C5, as the code has it. For every handler of the service other than
  \<open>handleStripeWebhook\<close>, and every input, the JSON body that reaches the client, be it
  the handler's own reply or the wrapper's serialization of a typed application error, has
  a \<open>status\<close> field together with a \<open>data\<close> or a \<open>message\<close> field; the only other
  way a handler ends is an exception that is not a typed application error, for which it
  sends no reply of its own.
\<close>

theorem uniform_envelope_except_webhook:
  "uniformEnvelope (catchAsync (Next err))
   \<and> (threw (createNewCourse thumbnailResult newCourse)
     \<or> uniformEnvelope (catchAsync (createNewCourse thumbnailResult newCourse)))
   \<and> uniformEnvelope (catchAsync (searchCourses courses))
   \<and> uniformEnvelope (catchAsync (getPublishedCourses courses))
   \<and> uniformEnvelope (catchAsync (getMyCreatedCourses courses))
   \<and> (threw (snd (updateCourseDetails castObjectId castString castNumber uploadMedia rawId cb d))
     \<or> uniformEnvelope (catchAsync (snd (updateCourseDetails castObjectId castString castNumber uploadMedia rawId cb d))))
   \<and> (threw (getCourseDetails castObjectId rawId d)
     \<or> uniformEnvelope (catchAsync (getCourseDetails castObjectId rawId d)))
   \<and> uniformEnvelope (catchAsync (addLectureToCourse crs newLecture))
   \<and> uniformEnvelope (catchAsync (getCourseLectures lects))
   \<and> (threw (snd (createUserAccount jwt_sign bcrypt_hash salt newId e sb d))
     \<or> uniformEnvelope (catchAsync (snd (createUserAccount jwt_sign bcrypt_hash salt newId e sb d))))
   \<and> (threw (authenticateUser jwt_sign bcrypt_compare e lb d)
     \<or> uniformEnvelope (catchAsync (authenticateUser jwt_sign bcrypt_compare e lb d)))
   \<and> uniformEnvelope (catchAsync (signOutUser))
   \<and> uniformEnvelope (catchAsync (getCurrentUserProfile usr))
   \<and> (threw (updateUserProfile eml photo existingUser currentUser uploadResult updatedUser)
     \<or> uniformEnvelope (catchAsync (updateUserProfile eml photo existingUser currentUser uploadResult updatedUser)))
   \<and> uniformEnvelope (catchAsync (changeUserPassword currentPassword newPassword pwUser isCurrentPasswordValid))
   \<and> uniformEnvelope (catchAsync (forgotPassword fpUser resetToken resetUrl))
   \<and> (threw (resetPassword jwt_sign e pw rpUser)
     \<or> uniformEnvelope (catchAsync (resetPassword jwt_sign e pw rpUser)))
   \<and> uniformEnvelope (catchAsync (deleteUserAccount pw duUser isPasswordValid))
   \<and> (threw (snd (createRazorpayOrder castObjectId order keyId uid rawId d))
     \<or> uniformEnvelope (catchAsync (snd (createRazorpayOrder castObjectId order keyId uid rawId d))))
   \<and> (threw (snd (verifyPayment hmac e now uid rb d))
     \<or> uniformEnvelope (catchAsync (snd (verifyPayment hmac e now uid rb d))))
   \<and> uniformEnvelope (catchAsync (snd (handlePaymentFailure uid rb d)))
   \<and> uniformEnvelope (catchAsync (getPaymentStatus found))
   \<and> (threw (snd (initiateStripeCheckout castObjectId session uid rawId d))
     \<or> uniformEnvelope (catchAsync (snd (initiateStripeCheckout castObjectId session uid rawId d))))
   \<and> uniformEnvelope (catchAsync (getCoursePurchaseStatus uid cid d))
   \<and> (threw (getPurchasedCourses purchases)
     \<or> uniformEnvelope (catchAsync (getPurchasedCourses purchases)))
   \<and> (threw (getUserCourseProgress progress)
     \<or> uniformEnvelope (catchAsync (getUserCourseProgress progress)))
   \<and> (threw (updateLectureProgress progress)
     \<or> uniformEnvelope (catchAsync (updateLectureProgress progress)))
   \<and> (threw (markCourseAsCompleted progress)
     \<or> uniformEnvelope (catchAsync (markCourseAsCompleted progress)))
   \<and> (threw (resetCourseProgress progress)
     \<or> uniformEnvelope (catchAsync (resetCourseProgress progress)))
   \<and> uniformEnvelope (catchAsync (checkHealth readyState))"
proof -
  have typed: "uniformEnvelope (catchAsync (Next err))"
    by (cases err)
      (simp add: catchAsync_def errorHandler_def uniformEnvelope_def envelope_def hasField_def
        getField_def)
  show ?thesis
    by (intro conjI)
      (rule typed reply_createNewCourse reply_searchCourses reply_getPublishedCourses reply_getMyCreatedCourses reply_updateCourseDetails reply_getCourseDetails reply_addLectureToCourse reply_getCourseLectures reply_createUserAccount reply_authenticateUser reply_signOutUser reply_getCurrentUserProfile reply_updateUserProfile reply_changeUserPassword reply_forgotPassword reply_resetPassword reply_deleteUserAccount reply_createRazorpayOrder reply_verifyPayment reply_handlePaymentFailure reply_getPaymentStatus reply_initiateStripeCheckout reply_getCoursePurchaseStatus reply_getPurchasedCourses reply_getUserCourseProgress reply_updateLectureProgress reply_markCourseAsCompleted reply_resetCourseProgress reply_checkHealth)+
qed

theorem uniform_envelope_except_webhook_witness:
  "getCourseDetails sample_castObjectId ''000000000000000000000002'' sample_db =
        Json 200 [] (JObj [(''status'', JStr ''success''),
           (''data'', JObj [(''course'', JObj (populatedCourse sample_db (sample_course 2)))])])
   \<and> uniformEnvelope (catchAsync
         (getCourseDetails sample_castObjectId ''000000000000000000000002'' sample_db))
   \<and> snd (handlePaymentFailure 1 (sample_body ''x'') mixed_db) =
        Json 200 [] (JObj [(''status'', JStr ''success''),
           (''message'', JStr ''Payment failure recorded''),
           (''data'', JObj [(''orderId'', JStr ''order_A''),
                            (''failureReason'', JStr ''Payment failed'')])])
   \<and> snd (handlePaymentFailure 1 (sample_body ''x'') stripe_db) =
        Next (AppError ''Purchase record not found'' 404)
   \<and> catchAsync (snd (handlePaymentFailure 1 (sample_body ''x'') stripe_db)) =
        Json 404 [] (JObj [(''status'', JStr ''error''),
           (''message'', JStr ''Purchase record not found'')])
   \<and> uniformEnvelope (catchAsync (snd (handlePaymentFailure 1 (sample_body ''x'') stripe_db)))"
proof -
  have e1: "threw (getCourseDetails sample_castObjectId ''000000000000000000000002'' sample_db)
     \<or> uniformEnvelope (catchAsync
         (getCourseDetails sample_castObjectId ''000000000000000000000002'' sample_db))"
    by (rule uniform_envelope_except_webhook
        [THEN conjunct2, THEN conjunct2, THEN conjunct2, THEN conjunct2, THEN conjunct2, THEN conjunct2, THEN conjunct1])
  have e2: "uniformEnvelope (catchAsync (snd (handlePaymentFailure 1 (sample_body ''x'') stripe_db)))"
    by (rule uniform_envelope_except_webhook
        [THEN conjunct2, THEN conjunct2, THEN conjunct2, THEN conjunct2, THEN conjunct2, THEN conjunct2, THEN conjunct2, THEN conjunct2, THEN conjunct2, THEN conjunct2, THEN conjunct2, THEN conjunct2, THEN conjunct2, THEN conjunct2, THEN conjunct2, THEN conjunct2, THEN conjunct2, THEN conjunct2, THEN conjunct2, THEN conjunct2, THEN conjunct1])
  have g: "getCourseDetails sample_castObjectId ''000000000000000000000002'' sample_db =
        Json 200 [] (JObj [(''status'', JStr ''success''),
           (''data'', JObj [(''course'', JObj (populatedCourse sample_db (sample_course 2)))])])"
    by (simp add: getCourseDetails_def findOne_def sample_castObjectId_2 sample_db_def
        sample_course_def)
  have f1: "snd (handlePaymentFailure 1 (sample_body ''x'') mixed_db) =
        Json 200 [] (JObj [(''status'', JStr ''success''),
           (''message'', JStr ''Payment failure recorded''),
           (''data'', JObj [(''orderId'', JStr ''order_A''),
                            (''failureReason'', JStr ''Payment failed'')])])"
    by (simp add: sample_defs handlePaymentFailure_def findOneAndUpdate_def pendingOrder_def
        orDefault_def)
  have f2: "snd (handlePaymentFailure 1 (sample_body ''x'') stripe_db) =
        Next (AppError ''Purchase record not found'' 404)"
    by (simp add: sample_defs handlePaymentFailure_def findOneAndUpdate_def pendingOrder_def)
  have f3: "catchAsync (snd (handlePaymentFailure 1 (sample_body ''x'') stripe_db)) =
        Json 404 [] (JObj [(''status'', JStr ''error''),
           (''message'', JStr ''Purchase record not found'')])"
    using f2 by (simp add: catchAsync_def errorHandler_def)
  from e1 g have e1': "uniformEnvelope (catchAsync
         (getCourseDetails sample_castObjectId ''000000000000000000000002'' sample_db))"
    by (simp add: threw_def)
  from g e1' f1 f2 f3 e2 show ?thesis by simp
qed

text \<open>
  C5 as stated fails for the Stripe webhook: an accepted event is acknowledged with
  \<open>{received: true}\<close>, which has no \<open>status\<close> field, and a rejected signature is
  answered with plain text.
\<close>

theorem uniform_envelope_counterexample:
  "snd (snd (handleStripeWebhook sample_constructEvent sample_env 5 completed_req stripe_db))
     = Json 200 [] (JObj [(''received'', JBool True)])
   \<and> \<not> uniformEnvelope (catchAsync (snd (snd (handleStripeWebhook sample_constructEvent
          sample_env 5 completed_req stripe_db))))
   \<and> \<not> hasField ''status'' (JObj [(''received'', JBool True)])
   \<and> snd (snd (handleStripeWebhook sample_constructEvent sample_env 5
          \<lparr>raw_body = ''checkout.session.completed'', stripe_signature = ''forged''\<rparr> stripe_db))
     = Send 400 ''Webhook Error: No signatures found matching the expected signature for payload''"
  by (simp add: sample_defs handler_defs uniformEnvelope_def envelope_def hasField_def
      getField_def catchAsync_def)

end
